theory Spec2Isabelle
  imports Main "HOL-Library.AList" "HOL-Library.Sublist"
begin

section \<open>Python values and dictionaries\<close>

text \<open>
  The toolkit passes JSON-like Python values around: the attribute dictionaries given by
  the caller and the decoded bodies of the backend's responses. \<open>PNone\<close> is Python's
  \<open>None\<close>. A dictionary is an association list in insertion order whose keys are
  distinct, as a Python \<open>dict\<close> is; floating point numbers are not part of the model.
\<close>

datatype pyval =
    PNone
  | PBool bool
  | PInt int
  | PStr string
  | PList "pyval list"
  | PDict "(string \<times> pyval) list"

type_synonym pydict = "(string \<times> pyval) list"

text \<open>
  Exceptions. Every message the toolkit builds with an f-string is kept as a constructor
  holding what the f-string interpolates: the text of a value, or the list or set of
  names it prints.
\<close>

datatype kind = Device | Site

datatype operation =
    GetDevices | GetDevice | GetDeviceProperties | UpdateDevice string | AddNewDevice
  | GetSites | GetSite | GetConfiguration | UpdateSite string
  | GetUserInfo | GetGroups

datatype message =
    InvalidBooleanString string string
  | MustBeBoolean string
  | MultipleVisibilities "string list"
  | NoVisibilities
  | FailedStatus operation int
  | FailedToFind kind string
  | IdAndNameDoNotMatch kind
  | MustProvideIdOrName kind
  | InvalidAttributesForUpdate kind "string list"
  | InvalidAttributeGiven string
  | MissingRequiredAttributes "string set"
  | NotSubscriptable pyval
  | NotIterable pyval
  | Unhashable pyval
  | BadOperand pyval pyval

datatype exn =
    ValueError message
  | TypeError message
  | KeyError string
  | Exception message
  | RequestException
  | JSONDecodeError

text \<open>\<open>d[k]\<close>: a missing key raises \<open>KeyError\<close>.\<close>

definition dict_getitem :: "pydict \<Rightarrow> string \<Rightarrow> exn + pyval" where
  "dict_getitem d k = (case map_of d k of None \<Rightarrow> Inl (KeyError k) | Some v \<Rightarrow> Inr v)"

text \<open>\<open>k in d\<close>.\<close>

definition dict_contains :: "pydict \<Rightarrow> string \<Rightarrow> bool" where
  "dict_contains d k = (k \<in> set (map fst d))"

text \<open>
  \<open>d[k] = v\<close>: an existing key keeps its position, a new key goes to the end.
\<close>

definition dict_setitem :: "pydict \<Rightarrow> string \<Rightarrow> pyval \<Rightarrow> pydict" where
  "dict_setitem d k v = AList.update k v d"

text \<open>\<open>d.keys()\<close>, in insertion order.\<close>

definition dict_keys :: "pydict \<Rightarrow> string list" where
  "dict_keys d = map fst d"

text \<open>
  \<open>s.lower()\<close> on the ASCII letters; every other character is kept. The toolkit
  only compares the lowered string with \<open>true\<close>, \<open>1\<close>, \<open>false\<close> and \<open>0\<close>, and no
  character outside ASCII lowers to one of their letters.
\<close>

definition lower_char :: "char \<Rightarrow> char" where
  "lower_char c =
     (case map_of (zip ''ABCDEFGHIJKLMNOPQRSTUVWXYZ'' ''abcdefghijklmnopqrstuvwxyz'') c of
        Some l \<Rightarrow> l
      | None \<Rightarrow> c)"

definition lower :: "string \<Rightarrow> string" where
  "lower s = map lower_char s"

section \<open>constants.py\<close>

definition DEVICE_ATTRIBUTES :: "string list" where
  "DEVICE_ATTRIBUTES =
     [''description'', ''short_name'', ''long_name'', ''serial_number'',
      ''manufacturer_uri'', ''manufacturer_name'', ''device_type_uri'',
      ''device_type_name'', ''status_uri'', ''status_name'', ''model'',
      ''inventory_number'', ''schema_version'', ''identifer_type'', ''website'',
      ''group_ids'', ''is_private'', ''is_internal'', ''is_public'', ''keywords'',
      ''country'']"

definition MIN_PRIVATE_DEVICE_ATTRIBUTES :: "string list" where
  "MIN_PRIVATE_DEVICE_ATTRIBUTES =
     [''short_name'', ''manufacturer_name'', ''is_private'', ''is_internal'', ''is_public'']"

definition MIN_INTERNAL_DEVICE_ATTRIBUTES :: "string list" where
  "MIN_INTERNAL_DEVICE_ATTRIBUTES = MIN_PRIVATE_DEVICE_ATTRIBUTES @ [''group_ids'']"

definition MIN_PUBLIC_DEVICE_ATTRIBUTES :: "string list" where
  "MIN_PUBLIC_DEVICE_ATTRIBUTES = MIN_INTERNAL_DEVICE_ATTRIBUTES @ []"

definition SITE_ATTRIBUTES :: "string list" where
  "SITE_ATTRIBUTES =
     [''label'', ''geometry'', ''description'', ''epsg_code'', ''is_internal'',
      ''is_public'', ''group_ids'', ''street'', ''street_number'', ''city'', ''zip_code'',
      ''country'', ''building'', ''room'', ''site_type_uri'', ''site_type_name'',
      ''site_usage_uri'', ''site_usage_name'', ''elevation'', ''elevation_datum_name'',
      ''elevation_datum_uri'', ''website'', ''keywords'']"

section \<open>Devices._check_device_visibility\<close>

text \<open>
  The body of the loop up to \<open>if value:\<close>: a string is lowered and must be one of the
  four boolean strings, a boolean is taken as it is, anything else is a \<open>TypeError\<close>.
\<close>

definition coerce_flag :: "string \<Rightarrow> pyval \<Rightarrow> exn + bool" where
  "coerce_flag key v =
     (case v of
        PStr s \<Rightarrow>
          (let l = lower s in
           if l \<in> set [''true'', ''1''] then Inr True
           else if l \<in> set [''false'', ''0''] then Inr False
           else Inl (ValueError (InvalidBooleanString key s)))
      | PBool b \<Rightarrow> Inr b
      | _ \<Rightarrow> Inl (TypeError (MustBeBoolean key)))"

text \<open>The \<open>for key in [...]\<close> loop, with \<open>true_keys\<close> as the accumulator.\<close>

fun visibility_loop :: "pydict \<Rightarrow> string list \<Rightarrow> string list \<Rightarrow> exn + string list" where
  "visibility_loop input_dict [] true_keys = Inr true_keys"
| "visibility_loop input_dict (key # keys) true_keys =
     (case dict_getitem input_dict key of
        Inl e \<Rightarrow> Inl e
      | Inr v \<Rightarrow>
          (case coerce_flag key v of
             Inl e \<Rightarrow> Inl e
           | Inr b \<Rightarrow>
               visibility_loop input_dict keys
                 (if b then true_keys @ [key] else true_keys)))"

definition check_device_visibility :: "pydict \<Rightarrow> exn + string" where
  "check_device_visibility input_dict =
     (case visibility_loop input_dict [''is_public'', ''is_internal'', ''is_private''] [] of
        Inl e \<Rightarrow> Inl e
      | Inr true_keys \<Rightarrow>
          if length true_keys > 1 then Inl (ValueError (MultipleVisibilities true_keys))
          else if length true_keys = 0 then Inl (ValueError NoVisibilities)
          else Inr (true_keys ! 0))"

text \<open>
  The vocabulary of the visibility claims: a flag value is permissible when it is a
  boolean or a string that lowers to one of the four boolean strings, and it holds when
  it is \<open>True\<close> or lowers to \<open>true\<close> or \<open>1\<close>.
\<close>

definition permissible_flag :: "pyval \<Rightarrow> bool" where
  "permissible_flag v =
     (case v of
        PBool b \<Rightarrow> True
      | PStr s \<Rightarrow> lower s \<in> set [''true'', ''1'', ''false'', ''0'']
      | _ \<Rightarrow> False)"

definition flag_holds :: "pyval \<Rightarrow> bool" where
  "flag_holds v =
     (case v of
        PBool b \<Rightarrow> b
      | PStr s \<Rightarrow> lower s \<in> set [''true'', ''1'']
      | _ \<Rightarrow> False)"

definition visibility_flags :: "string list" where
  "visibility_flags = [''is_private'', ''is_internal'', ''is_public'']"

text \<open>The keys among the three flags whose value in \<open>d\<close> holds.\<close>

definition true_flags :: "pydict \<Rightarrow> string set" where
  "true_flags d =
     set (filter (\<lambda>k. case map_of d k of None \<Rightarrow> False | Some v \<Rightarrow> flag_holds v)
            visibility_flags)"

definition flags_permissible :: "pydict \<Rightarrow> bool" where
  "flags_permissible d =
     list_all (\<lambda>k. case map_of d k of None \<Rightarrow> False | Some v \<Rightarrow> permissible_flag v)
       visibility_flags"

text \<open>Three concrete flag mappings: one flag set, none set, two set.\<close>

definition flags_one :: pydict where
  "flags_one =
     [(''is_private'', PStr ''TRUE''), (''is_internal'', PStr ''0''),
      (''is_public'', PBool False)]"

definition flags_none :: pydict where
  "flags_none =
     [(''is_private'', PStr ''False''), (''is_internal'', PStr ''0''),
      (''is_public'', PBool False)]"

definition flags_two :: pydict where
  "flags_two =
     [(''is_private'', PStr ''1''), (''is_internal'', PBool False),
      (''is_public'', PStr ''True'')]"

section \<open>Python operators on values\<close>

text \<open>
  \<open>a == b\<close>. \<open>True\<close> and \<open>False\<close> equal the integers 1 and 0, lists are compared
  element by element, dictionaries by their entries whatever their order.
\<close>

fun py_eq :: "pyval \<Rightarrow> pyval \<Rightarrow> bool"
  and py_eq_list :: "pyval list \<Rightarrow> pyval list \<Rightarrow> bool"
  and py_eq_items :: "(string \<times> pyval) list \<Rightarrow> (string \<times> pyval) list \<Rightarrow> bool" where
  "py_eq PNone b = (b = PNone)"
| "py_eq (PBool x) b =
     (case b of PBool y \<Rightarrow> x = y | PInt n \<Rightarrow> (if x then 1 else 0) = n | _ \<Rightarrow> False)"
| "py_eq (PInt m) b =
     (case b of PBool y \<Rightarrow> m = (if y then 1 else 0) | PInt n \<Rightarrow> m = n | _ \<Rightarrow> False)"
| "py_eq (PStr s) b = (case b of PStr t \<Rightarrow> s = t | _ \<Rightarrow> False)"
| "py_eq (PList xs) b = (case b of PList ys \<Rightarrow> py_eq_list xs ys | _ \<Rightarrow> False)"
| "py_eq (PDict d) b =
     (case b of PDict e \<Rightarrow> length d = length e \<and> py_eq_items d e | _ \<Rightarrow> False)"
| "py_eq_list [] ys = (ys = [])"
| "py_eq_list (x # xs) ys =
     (case ys of [] \<Rightarrow> False | y # ys' \<Rightarrow> py_eq x y \<and> py_eq_list xs ys')"
| "py_eq_items [] e = True"
| "py_eq_items (kv # d) e =
     (case map_of e (fst kv) of
        None \<Rightarrow> False
      | Some w \<Rightarrow> py_eq (snd kv) w \<and> py_eq_items d e)"

text \<open>\<open>v[k]\<close> with a string key: only a dictionary can be indexed so.\<close>

definition subscript :: "pyval \<Rightarrow> string \<Rightarrow> exn + pyval" where
  "subscript v k =
     (case v of PDict d \<Rightarrow> dict_getitem d k | _ \<Rightarrow> Inl (TypeError (NotSubscriptable v)))"

text \<open>\<open>v[k1][k2][k3]\<close>, left to right.\<close>

fun subscripts :: "pyval \<Rightarrow> string list \<Rightarrow> exn + pyval" where
  "subscripts v [] = Inr v"
| "subscripts v (k # ks) =
     (case subscript v k of Inl e \<Rightarrow> Inl e | Inr u \<Rightarrow> subscripts u ks)"

text \<open>
  The elements a \<open>for\<close> loop over \<open>v\<close> visits: those of a list, the keys of a
  dictionary, the characters of a string; nothing else can be iterated.
\<close>

definition py_iter :: "pyval \<Rightarrow> exn + pyval list" where
  "py_iter v =
     (case v of
        PList xs \<Rightarrow> Inr xs
      | PDict d \<Rightarrow> Inr (map (\<lambda>k. PStr k) (dict_keys d))
      | PStr s \<Rightarrow> Inr (map (\<lambda>c. PStr [c]) s)
      | _ \<Rightarrow> Inl (TypeError (NotIterable v)))"

definition hashable :: "pyval \<Rightarrow> bool" where
  "hashable v = (case v of PList xs \<Rightarrow> False | PDict d \<Rightarrow> False | _ \<Rightarrow> True)"

text \<open>
  \<open>x in c\<close>: an equal element of a list, a substring of a string (where \<open>x\<close> must be a
  string), a key of a dictionary (where \<open>x\<close> must be hashable).
\<close>

definition py_in :: "pyval \<Rightarrow> pyval \<Rightarrow> exn + bool" where
  "py_in x c =
     (case c of
        PList ys \<Rightarrow> Inr (list_ex (\<lambda>y. py_eq y x) ys)
      | PStr s \<Rightarrow>
          (case x of PStr t \<Rightarrow> Inr (sublist t s) | _ \<Rightarrow> Inl (TypeError (BadOperand x c)))
      | PDict d \<Rightarrow>
          (if hashable x then Inr (list_ex (\<lambda>k. py_eq (PStr k) x) (dict_keys d))
           else Inl (TypeError (Unhashable x)))
      | _ \<Rightarrow> Inl (TypeError (NotIterable c)))"

text \<open>
  \<open>str(v)\<close>, which is what an f-string puts in place of \<open>{v}\<close>: a string is
  taken as it is, every other value is printed as \<open>repr\<close> prints it. Integers are in
  decimal; a string inside a list or dictionary is quoted (in double quotes when it holds
  a single quote and no double quote) with backslash escapes for the quote, the
  backslash and the ASCII control characters; characters outside ASCII are kept.
\<close>

definition digit_char :: "nat \<Rightarrow> char" where
  "digit_char d = ''0123456789abcdef'' ! d"

fun digits :: "nat \<Rightarrow> string" where
  "digits n = (if n < 10 then [digit_char n] else digits (n div 10) @ [digit_char (n mod 10)])"

declare digits.simps [simp del]

definition str_of_int :: "int \<Rightarrow> string" where
  "str_of_int i = (if i < 0 then CHR ''-'' # digits (nat (- i)) else digits (nat i))"

definition escape_char :: "char \<Rightarrow> char \<Rightarrow> string" where
  "escape_char quote c =
     (let n = (of_char c :: nat) in
      if c = quote \<or> c = CHR 0x5C then [CHR 0x5C, c]
      else if n = 9 then [CHR 0x5C, CHR ''t'']
      else if n = 10 then [CHR 0x5C, CHR ''n'']
      else if n = 13 then [CHR 0x5C, CHR ''r'']
      else if n < 32 \<or> n = 127
        then [CHR 0x5C, CHR ''x'', digit_char (n div 16), digit_char (n mod 16)]
      else [c])"

definition repr_str :: "string \<Rightarrow> string" where
  "repr_str s =
     (let quote = (if CHR 0x27 \<in> set s \<and> CHR 0x22 \<notin> set s then CHR 0x22 else CHR 0x27)
      in [quote] @ concat (map (escape_char quote) s) @ [quote])"

fun py_repr :: "pyval \<Rightarrow> string"
  and repr_elems :: "pyval list \<Rightarrow> string"
  and repr_items :: "(string \<times> pyval) list \<Rightarrow> string" where
  "py_repr PNone = ''None''"
| "py_repr (PBool b) = (if b then ''True'' else ''False'')"
| "py_repr (PInt i) = str_of_int i"
| "py_repr (PStr s) = repr_str s"
| "py_repr (PList xs) = ''['' @ repr_elems xs @ '']''"
| "py_repr (PDict d) = ''{'' @ repr_items d @ ''}''"
| "repr_elems [] = []"
| "repr_elems (x # xs) = py_repr x @ (if xs = [] then [] else '', '' @ repr_elems xs)"
| "repr_items [] = []"
| "repr_items (kv # d) =
     repr_str (fst kv) @ '': '' @ py_repr (snd kv) @ (if d = [] then [] else '', '' @ repr_items d)"

definition py_str :: "pyval \<Rightarrow> string" where
  "py_str v = (case v of PStr s \<Rightarrow> s | _ \<Rightarrow> py_repr v)"

section \<open>The backend as the toolkit sees it\<close>

text \<open>
  A request is kept with its parts instead of the URL string: the collection or resource
  it addresses, with the text the f-string puts into the URL. The body of a POST or PATCH is
  the JSON:API envelope handed to \<open>json.dumps\<close>; its id, where it has one, is the
  string the f-string makes of the id.
\<close>

datatype http_method = GET | POST | PATCH

datatype endpoint =
    DevicesUrl
  | DeviceUrl string
  | DevicePropertiesByDeviceUrl string
  | DevicePropertiesByNameUrl string
  | SitesUrl
  | SiteUrl string
  | SiteConfigurationsUrl string
  | UserInfoUrl
  | PermissionGroupsUrl

record envelope =
  env_id :: "string option"
  env_type :: string
  env_attributes :: pydict

type_synonym header_dict = "(string \<times> string option) list"

record request =
  req_method :: http_method
  req_base :: string
  req_url :: endpoint
  req_headers :: header_dict
  req_data :: "envelope option"

text \<open>
  A response has a status code and a body; \<open>response.json()\<close> raises when the body is
  not JSON (\<open>None\<close> here).
\<close>

record response =
  status_code :: int
  body :: "pyval option"

definition response_json :: "response \<Rightarrow> exn + pyval" where
  "response_json r = (case body r of None \<Rightarrow> Inl JSONDecodeError | Some v \<Rightarrow> Inr v)"

text \<open>
  The backend answers a request given the requests it has received before; no answer is
  a transport failure, which \<open>requests\<close> raises. The world outside the objects is the
  list of requests sent so far and the lines printed so far.
\<close>

type_synonym server = "request list \<Rightarrow> request \<Rightarrow> response option"

record world =
  sent :: "request list"
  printed :: "string list"

definition send :: "server \<Rightarrow> request \<Rightarrow> world \<Rightarrow> (exn + response) \<times> world" where
  "send srv rq w =
     (case srv (sent w) rq of
        None \<Rightarrow> (Inl RequestException, w\<lparr>sent := sent w @ [rq]\<rparr>)
      | Some r \<Rightarrow> (Inr r, w\<lparr>sent := sent w @ [rq]\<rparr>))"

definition print :: "string \<Rightarrow> world \<Rightarrow> world" where
  "print line w = w\<lparr>printed := printed w @ [line]\<rparr>"

section \<open>core.py\<close>

record core_api =
  api_key :: "string option"
  base_url :: string
  headers :: header_dict

text \<open>\<open>api_key or os.getenv("SENSORS_API_KEY")\<close>: an empty string counts as no key.\<close>

definition resolve_api_key :: "string option \<Rightarrow> string option \<Rightarrow> string option" where
  "resolve_api_key given env =
     (case given of None \<Rightarrow> env | Some k \<Rightarrow> if k = [] then env else Some k)"

text \<open>\<open>CoreApi.__init__\<close>; \<open>env\<close> is the value of the environment variable.\<close>

definition CoreApi_init :: "string option \<Rightarrow> string option \<Rightarrow> core_api" where
  "CoreApi_init given env =
     (let key = resolve_api_key given env in
      \<lparr>api_key = key,
       base_url = ''https://pid-sms-tst.bodc.uk/backend/api/v1'',
       headers =
         [(''accept'', Some ''application/vnd.api+json''),
          (''X-APIKEY'', key),
          (''Content-Type'', Some ''application/vnd.api+json'')]\<rparr>)"

definition add_api_key :: "'a core_api_scheme \<Rightarrow> string \<Rightarrow> 'a core_api_scheme" where
  "add_api_key self key = self\<lparr>api_key := Some key\<rparr>"

text \<open>The headers the constructor derives from a key.\<close>

definition headers_for :: "string option \<Rightarrow> header_dict" where
  "headers_for key =
     [(''accept'', Some ''application/vnd.api+json''),
      (''X-APIKEY'', key),
      (''Content-Type'', Some ''application/vnd.api+json'')]"

definition get_request :: "'a core_api_scheme \<Rightarrow> endpoint \<Rightarrow> request" where
  "get_request self u =
     \<lparr>req_method = GET, req_base = base_url self, req_url = u,
      req_headers = headers self, req_data = None\<rparr>"

section \<open>devices.py\<close>

record devices = core_api +
  all_device_data :: pyval

definition Devices_init :: "string option \<Rightarrow> string option \<Rightarrow> devices" where
  "Devices_init given env =
     core_api.extend (CoreApi_init given env) \<lparr>all_device_data = PNone\<rparr>"

text \<open>
  \<open>get_devices\<close> stores the decoded body of the collection as the snapshot.
\<close>

definition get_devices :: "server \<Rightarrow> devices \<Rightarrow> world \<Rightarrow> (exn + unit) \<times> devices \<times> world" where
  "get_devices srv self w =
     (case send srv (get_request self DevicesUrl) w of
        (Inl e, w1) \<Rightarrow> (Inl e, self, w1)
      | (Inr r, w1) \<Rightarrow>
          if status_code r \<noteq> 200
          then (Inl (Exception (FailedStatus GetDevices (status_code r))), self, w1)
          else (case response_json r of
                  Inl e \<Rightarrow> (Inl e, self, w1)
                | Inr j \<Rightarrow> (Inr (), self\<lparr>all_device_data := j\<rparr>, w1)))"

definition get_device_by_id ::
  "server \<Rightarrow> devices \<Rightarrow> pyval \<Rightarrow> world \<Rightarrow> (exn + pyval) \<times> world" where
  "get_device_by_id srv self device_id w =
     (case send srv (get_request self (DeviceUrl (py_str device_id))) w of
        (Inl e, w1) \<Rightarrow> (Inl e, w1)
      | (Inr r, w1) \<Rightarrow>
          if status_code r \<noteq> 200
          then (Inl (Exception (FailedStatus GetDevice (status_code r))), w1)
          else (case response_json r of
                  Inl e \<Rightarrow> (Inl e, w1)
                | Inr j \<Rightarrow> (subscript j ''data'', w1)))"

text \<open>
  The search loop of \<open>get_device_by_name\<close> and \<open>get_site_by_name\<close>: the first entry
  whose \<open>attributes[field]\<close> equals the name; \<open>None\<close> when the loop runs out.
\<close>

fun find_by_field :: "string \<Rightarrow> string \<Rightarrow> pyval list \<Rightarrow> exn + pyval option" where
  "find_by_field field name [] = Inr None"
| "find_by_field field name (entry # entries) =
     (case subscripts entry [''attributes'', field] of
        Inl e \<Rightarrow> Inl e
      | Inr v \<Rightarrow>
          if py_eq v (PStr name) then Inr (Some entry)
          else find_by_field field name entries)"

definition get_device_by_name ::
  "server \<Rightarrow> devices \<Rightarrow> string \<Rightarrow> world \<Rightarrow> (exn + pyval) \<times> devices \<times> world" where
  "get_device_by_name srv self device_name w =
     (case (if all_device_data self = PNone then get_devices srv self w
            else (Inr (), self, w)) of
        (Inl e, self1, w1) \<Rightarrow> (Inl e, self1, w1)
      | (Inr u, self1, w1) \<Rightarrow>
          (case subscript (all_device_data self1) ''data'' of
             Inl e \<Rightarrow> (Inl e, self1, w1)
           | Inr ds \<Rightarrow>
               (case py_iter ds of
                  Inl e \<Rightarrow> (Inl e, self1, w1)
                | Inr entries \<Rightarrow>
                    (case find_by_field ''short_name'' device_name entries of
                       Inl e \<Rightarrow> (Inl e, self1, w1)
                     | Inr (Some device) \<Rightarrow> (Inr device, self1, w1)
                     | Inr None \<Rightarrow>
                         (Inl (ValueError (FailedToFind Device device_name)), self1, w1)))))"

text \<open>
  \<open>get_device_properties\<close>. \<open>device_id\<close> is \<open>PNone\<close> and \<open>device_name\<close> is \<open>None\<close>
  when the caller leaves them out.
\<close>

definition check_device_id_and_name ::
  "server \<Rightarrow> devices \<Rightarrow> pyval \<Rightarrow> string option \<Rightarrow> world \<Rightarrow> (exn + unit) \<times> world" where
  "check_device_id_and_name srv self device_id device_name w =
     (case device_name of
        None \<Rightarrow> (Inr (), w)
      | Some name \<Rightarrow>
          if device_id = PNone then (Inr (), w)
          else (case get_device_by_id srv self device_id w of
                  (Inl e, w1) \<Rightarrow> (Inl e, w1)
                | (Inr device, w1) \<Rightarrow>
                    (case subscripts device [''attributes'', ''short_name''] of
                       Inl e \<Rightarrow> (Inl e, w1)
                     | Inr v \<Rightarrow>
                         if \<not> py_eq v (PStr name)
                         then (Inl (ValueError (IdAndNameDoNotMatch Device)), w1)
                         else (Inr (), w1))))"

definition fetch_device_properties ::
  "server \<Rightarrow> devices \<Rightarrow> pyval \<Rightarrow> world \<Rightarrow> (exn + pyval) \<times> world" where
  "fetch_device_properties srv self device_id w =
     (case send srv (get_request self (DevicePropertiesByDeviceUrl (py_str device_id))) w of
        (Inl e, w1) \<Rightarrow> (Inl e, w1)
      | (Inr r, w1) \<Rightarrow>
          if status_code r \<noteq> 200
          then (Inl (Exception (FailedStatus GetDeviceProperties (status_code r))), w1)
          else (response_json r, w1))"

definition get_device_properties ::
  "server \<Rightarrow> devices \<Rightarrow> pyval \<Rightarrow> string option \<Rightarrow> world
     \<Rightarrow> (exn + pyval) \<times> devices \<times> world" where
  "get_device_properties srv self device_id device_name w =
     (case check_device_id_and_name srv self device_id device_name w of
        (Inl e, w1) \<Rightarrow> (Inl e, self, w1)
      | (Inr u, w1) \<Rightarrow>
          if device_id = PNone \<and> device_name = None
          then (Inl (ValueError (MustProvideIdOrName Device)), self, w1)
          else
            (case device_name of
               None \<Rightarrow>
                 (case fetch_device_properties srv self device_id w1 of
                    (res, w2) \<Rightarrow> (res, self, w2))
             | Some name \<Rightarrow>
                 (case get_device_by_name srv self name w1 of
                    (Inl e, self2, w2) \<Rightarrow> (Inl e, self2, w2)
                  | (Inr device, self2, w2) \<Rightarrow>
                      (case subscript device ''id'' of
                         Inl e \<Rightarrow> (Inl e, self2, w2)
                       | Inr found_id \<Rightarrow>
                           (case fetch_device_properties srv self2 found_id w2 of
                              (res, w3) \<Rightarrow> (res, self2, w3))))))"

text \<open>
  The loop of the two update functions that collects the keys outside the allow-list,
  in the order of the mapping.
\<close>

fun collect_invalid :: "string list \<Rightarrow> string list \<Rightarrow> string list \<Rightarrow> string list" where
  "collect_invalid allowed [] invalid_attrs = invalid_attrs"
| "collect_invalid allowed (attr # attrs) invalid_attrs =
     collect_invalid allowed attrs
       (if attr \<notin> set allowed then invalid_attrs @ [attr] else invalid_attrs)"

definition update_device_by_id ::
  "server \<Rightarrow> devices \<Rightarrow> pyval \<Rightarrow> pydict \<Rightarrow> world \<Rightarrow> (exn + unit) \<times> world" where
  "update_device_by_id srv self device_id attributes w =
     (let invalid_attrs = collect_invalid DEVICE_ATTRIBUTES (dict_keys attributes) [] in
      if length invalid_attrs > 0
      then (Inl (ValueError (InvalidAttributesForUpdate Device invalid_attrs)), w)
      else
        (case send srv
                \<lparr>req_method = PATCH, req_base = base_url self,
                 req_url = DeviceUrl (py_str device_id), req_headers = headers self,
                 req_data = Some \<lparr>env_id = Some (py_str device_id), env_type = ''device'',
                                   env_attributes = attributes\<rparr>\<rparr> w of
           (Inl e, w1) \<Rightarrow> (Inl e, w1)
         | (Inr r, w1) \<Rightarrow>
             if status_code r \<noteq> 200
             then (Inl (Exception (FailedStatus (UpdateDevice (py_str device_id)) (status_code r))), w1)
             else (Inr (), w1)))"

definition update_device_by_name ::
  "server \<Rightarrow> devices \<Rightarrow> string \<Rightarrow> pydict \<Rightarrow> world \<Rightarrow> (exn + unit) \<times> devices \<times> world" where
  "update_device_by_name srv self device_name attributes w =
     (case get_device_by_name srv self device_name w of
        (Inl e, self1, w1) \<Rightarrow> (Inl e, self1, w1)
      | (Inr device, self1, w1) \<Rightarrow>
          (case subscript device ''id'' of
             Inl e \<Rightarrow> (Inl e, self1, w1)
           | Inr device_id \<Rightarrow>
               (case update_device_by_id srv self1 device_id attributes w1 of
                  (res, w2) \<Rightarrow> (res, self1, w2))))"

text \<open>
  \<open>add_device\<close>. The first loop writes the missing visibility flags into the caller's
  dictionary, so the function returns the dictionary as the caller finds it afterwards.
\<close>

fun fill_visibility :: "string list \<Rightarrow> pydict \<Rightarrow> pydict" where
  "fill_visibility [] attributes = attributes"
| "fill_visibility (key # keys) attributes =
     fill_visibility keys
       (if \<not> dict_contains attributes key then dict_setitem attributes key (PBool False)
        else attributes)"

definition min_reqs_for :: "string \<Rightarrow> string list" where
  "min_reqs_for vis =
     (if vis = ''is_private'' then MIN_PRIVATE_DEVICE_ATTRIBUTES
      else if vis = ''is_internal'' then MIN_INTERNAL_DEVICE_ATTRIBUTES
      else MIN_PUBLIC_DEVICE_ATTRIBUTES)"

text \<open>
  The second loop: the first key outside the allow-list raises; the keys among the
  minimum requirements are collected.
\<close>

fun collect_given :: "string list \<Rightarrow> string list \<Rightarrow> string list \<Rightarrow> exn + string list" where
  "collect_given min_reqs [] given_min_reqs = Inr given_min_reqs"
| "collect_given min_reqs (attr # attrs) given_min_reqs =
     (if attr \<notin> set DEVICE_ATTRIBUTES then Inl (ValueError (InvalidAttributeGiven attr))
      else collect_given min_reqs attrs
             (if attr \<in> set min_reqs then given_min_reqs @ [attr] else given_min_reqs))"

definition add_device ::
  "server \<Rightarrow> devices \<Rightarrow> pydict \<Rightarrow> world \<Rightarrow> (exn + unit) \<times> pydict \<times> world" where
  "add_device srv self attributes0 w =
     (let attributes = fill_visibility [''is_private'', ''is_internal'', ''is_public''] attributes0 in
      case check_device_visibility attributes of
        Inl e \<Rightarrow> (Inl e, attributes, w)
      | Inr vis \<Rightarrow>
          (let min_reqs = min_reqs_for vis in
           case collect_given min_reqs (dict_keys attributes) [] of
             Inl e \<Rightarrow> (Inl e, attributes, w)
           | Inr given_min_reqs \<Rightarrow>
               if length min_reqs \<noteq> length given_min_reqs
               then (Inl (ValueError (MissingRequiredAttributes
                            (set min_reqs - set given_min_reqs))), attributes, w)
               else
                 (case send srv
                         \<lparr>req_method = POST, req_base = base_url self,
                          req_url = DevicesUrl, req_headers = headers self,
                          req_data = Some \<lparr>env_id = None, env_type = ''device'',
                                            env_attributes = attributes\<rparr>\<rparr> w of
                    (Inl e, w1) \<Rightarrow> (Inl e, attributes, w1)
                  | (Inr r, w1) \<Rightarrow>
                      if status_code r \<noteq> 201
                      then (Inl (Exception (FailedStatus AddNewDevice (status_code r))),
                            attributes, w1)
                      else (Inr (), attributes, w1))))"

section \<open>sites.py\<close>

record sites = core_api +
  all_site_data :: pyval

definition Sites_init :: "string option \<Rightarrow> string option \<Rightarrow> sites" where
  "Sites_init given env =
     core_api.extend (CoreApi_init given env) \<lparr>all_site_data = PNone\<rparr>"

definition get_sites :: "server \<Rightarrow> sites \<Rightarrow> world \<Rightarrow> (exn + unit) \<times> sites \<times> world" where
  "get_sites srv self w =
     (case send srv (get_request self SitesUrl) w of
        (Inl e, w1) \<Rightarrow> (Inl e, self, w1)
      | (Inr r, w1) \<Rightarrow>
          if status_code r \<noteq> 200
          then (Inl (Exception (FailedStatus GetSites (status_code r))), self, w1)
          else (case response_json r of
                  Inl e \<Rightarrow> (Inl e, self, w1)
                | Inr j \<Rightarrow> (Inr (), self\<lparr>all_site_data := j\<rparr>, w1)))"

definition get_site_by_id ::
  "server \<Rightarrow> sites \<Rightarrow> pyval \<Rightarrow> world \<Rightarrow> (exn + pyval) \<times> world" where
  "get_site_by_id srv self site_id w =
     (case send srv (get_request self (SiteUrl (py_str site_id))) w of
        (Inl e, w1) \<Rightarrow> (Inl e, w1)
      | (Inr r, w1) \<Rightarrow>
          if status_code r \<noteq> 200
          then (Inl (Exception (FailedStatus GetSite (status_code r))), w1)
          else (case response_json r of
                  Inl e \<Rightarrow> (Inl e, w1)
                | Inr j \<Rightarrow> (subscript j ''data'', w1)))"

definition get_site_by_name ::
  "server \<Rightarrow> sites \<Rightarrow> string \<Rightarrow> world \<Rightarrow> (exn + pyval) \<times> sites \<times> world" where
  "get_site_by_name srv self site_name w =
     (case (if all_site_data self = PNone then get_sites srv self w
            else (Inr (), self, w)) of
        (Inl e, self1, w1) \<Rightarrow> (Inl e, self1, w1)
      | (Inr u, self1, w1) \<Rightarrow>
          (case subscript (all_site_data self1) ''data'' of
             Inl e \<Rightarrow> (Inl e, self1, w1)
           | Inr ds \<Rightarrow>
               (case py_iter ds of
                  Inl e \<Rightarrow> (Inl e, self1, w1)
                | Inr entries \<Rightarrow>
                    (case find_by_field ''label'' site_name entries of
                       Inl e \<Rightarrow> (Inl e, self1, w1)
                     | Inr (Some site) \<Rightarrow> (Inr site, self1, w1)
                     | Inr None \<Rightarrow>
                         (Inl (ValueError (FailedToFind Site site_name)), self1, w1)))))"

definition check_site_id_and_name ::
  "server \<Rightarrow> sites \<Rightarrow> pyval \<Rightarrow> string option \<Rightarrow> world \<Rightarrow> (exn + unit) \<times> world" where
  "check_site_id_and_name srv self site_id site_name w =
     (case site_name of
        None \<Rightarrow> (Inr (), w)
      | Some name \<Rightarrow>
          if site_id = PNone then (Inr (), w)
          else (case get_site_by_id srv self site_id w of
                  (Inl e, w1) \<Rightarrow> (Inl e, w1)
                | (Inr site, w1) \<Rightarrow>
                    (case subscripts site [''attributes'', ''label''] of
                       Inl e \<Rightarrow> (Inl e, w1)
                     | Inr v \<Rightarrow>
                         if \<not> py_eq v (PStr name)
                         then (Inl (ValueError (IdAndNameDoNotMatch Site)), w1)
                         else (Inr (), w1))))"

definition fetch_site_configurations ::
  "server \<Rightarrow> sites \<Rightarrow> pyval \<Rightarrow> world \<Rightarrow> (exn + pyval) \<times> world" where
  "fetch_site_configurations srv self site_id w =
     (case send srv (get_request self (SiteConfigurationsUrl (py_str site_id))) w of
        (Inl e, w1) \<Rightarrow> (Inl e, w1)
      | (Inr r, w1) \<Rightarrow>
          if status_code r \<noteq> 200
          then (Inl (Exception (FailedStatus GetConfiguration (status_code r))), w1)
          else (response_json r, w1))"

definition get_site_configurations ::
  "server \<Rightarrow> sites \<Rightarrow> pyval \<Rightarrow> string option \<Rightarrow> world
     \<Rightarrow> (exn + pyval) \<times> sites \<times> world" where
  "get_site_configurations srv self site_id site_name w =
     (case check_site_id_and_name srv self site_id site_name w of
        (Inl e, w1) \<Rightarrow> (Inl e, self, w1)
      | (Inr u, w1) \<Rightarrow>
          if site_id = PNone \<and> site_name = None
          then (Inl (ValueError (MustProvideIdOrName Site)), self, w1)
          else
            (case site_name of
               None \<Rightarrow>
                 (case fetch_site_configurations srv self site_id w1 of
                    (res, w2) \<Rightarrow> (res, self, w2))
             | Some name \<Rightarrow>
                 (case get_site_by_name srv self name w1 of
                    (Inl e, self2, w2) \<Rightarrow> (Inl e, self2, w2)
                  | (Inr site, self2, w2) \<Rightarrow>
                      (case subscript site ''id'' of
                         Inl e \<Rightarrow> (Inl e, self2, w2)
                       | Inr found_id \<Rightarrow>
                           (case fetch_site_configurations srv self2 found_id w2 of
                              (res, w3) \<Rightarrow> (res, self2, w3))))))"

definition update_site_by_id ::
  "server \<Rightarrow> sites \<Rightarrow> pyval \<Rightarrow> pydict \<Rightarrow> world \<Rightarrow> (exn + unit) \<times> world" where
  "update_site_by_id srv self site_id attributes w =
     (let invalid_attrs = collect_invalid SITE_ATTRIBUTES (dict_keys attributes) [] in
      if length invalid_attrs > 0
      then (Inl (ValueError (InvalidAttributesForUpdate Site invalid_attrs)), w)
      else
        (case send srv
                \<lparr>req_method = PATCH, req_base = base_url self,
                 req_url = SiteUrl (py_str site_id), req_headers = headers self,
                 req_data = Some \<lparr>env_id = Some (py_str site_id), env_type = ''site'',
                                   env_attributes = attributes\<rparr>\<rparr> w of
           (Inl e, w1) \<Rightarrow> (Inl e, w1)
         | (Inr r, w1) \<Rightarrow>
             if status_code r \<noteq> 200
             then (Inl (Exception (FailedStatus (UpdateSite (py_str site_id)) (status_code r))), w1)
             else (Inr (), w1)))"

definition update_site_by_name ::
  "server \<Rightarrow> sites \<Rightarrow> string \<Rightarrow> pydict \<Rightarrow> world \<Rightarrow> (exn + unit) \<times> sites \<times> world" where
  "update_site_by_name srv self site_name attributes w =
     (case get_site_by_name srv self site_name w of
        (Inl e, self1, w1) \<Rightarrow> (Inl e, self1, w1)
      | (Inr site, self1, w1) \<Rightarrow>
          (case subscript site ''id'' of
             Inl e \<Rightarrow> (Inl e, self1, w1)
           | Inr site_id \<Rightarrow>
               (case update_site_by_id srv self1 site_id attributes w1 of
                  (res, w2) \<Rightarrow> (res, self1, w2))))"

section \<open>user.py\<close>

text \<open>
  \<open>user_info\<close> is \<open>PNone\<close> and \<open>user_groups\<close> is \<open>None\<close> where the Python attribute is
  \<open>None\<close>.
\<close>

record user_info_api = core_api +
  user_info :: pyval
  user_groups :: "pyval list option"

definition check_user_api_key ::
  "'a core_api_scheme \<Rightarrow> bool \<Rightarrow> world \<Rightarrow> bool \<times> world" where
  "check_user_api_key self verbose w =
     (if api_key self = None
      then (False, if verbose then print ''[WARNING]: No user API key found.'' w else w)
      else (True, w))"

definition get_user_info ::
  "server \<Rightarrow> 'a core_api_scheme \<Rightarrow> world \<Rightarrow> (exn + pyval) \<times> world" where
  "get_user_info srv self w =
     (case check_user_api_key self True w of
        (False, w1) \<Rightarrow> (Inr PNone, w1)
      | (True, w1) \<Rightarrow>
          (case send srv (get_request self UserInfoUrl) w1 of
             (Inl e, w2) \<Rightarrow> (Inl e, w2)
           | (Inr r, w2) \<Rightarrow>
               if status_code r \<noteq> 200
               then (Inl (Exception (FailedStatus GetUserInfo (status_code r))), w2)
               else (response_json r, w2)))"

definition get_all_groups ::
  "server \<Rightarrow> 'a core_api_scheme \<Rightarrow> world \<Rightarrow> (exn + pyval) \<times> world" where
  "get_all_groups srv self w =
     (case send srv (get_request self PermissionGroupsUrl) w of
        (Inl e, w1) \<Rightarrow> (Inl e, w1)
      | (Inr r, w1) \<Rightarrow>
          if status_code r \<noteq> 200
          then (Inl (Exception (FailedStatus GetGroups (status_code r))), w1)
          else (response_json r, w1))"

text \<open>The loop of \<open>get_user_groups\<close>, with \<open>user_group_list\<close> as the accumulator.\<close>

fun collect_user_groups :: "pyval \<Rightarrow> pyval list \<Rightarrow> pyval list \<Rightarrow> exn + pyval list" where
  "collect_user_groups user_group_ids [] user_group_list = Inr user_group_list"
| "collect_user_groups user_group_ids (grp # groups) user_group_list =
     (case subscript grp ''id'' of
        Inl e \<Rightarrow> Inl e
      | Inr gid \<Rightarrow>
          (case py_in gid user_group_ids of
             Inl e \<Rightarrow> Inl e
           | Inr b \<Rightarrow>
               collect_user_groups user_group_ids groups
                 (if b then user_group_list @ [grp] else user_group_list)))"

text \<open>The part of \<open>get_user_groups\<close> after \<open>user_info\<close> is known to be there.\<close>

definition user_groups_of ::
  "server \<Rightarrow> user_info_api \<Rightarrow> world \<Rightarrow> (exn + pyval list option) \<times> user_info_api \<times> world" where
  "user_groups_of srv self w =
     (case get_all_groups srv self w of
        (Inl e, w1) \<Rightarrow> (Inl e, self, w1)
      | (Inr all_perm_groups, w1) \<Rightarrow>
          (case subscripts (user_info self) [''data'', ''attributes'', ''member''] of
             Inl e \<Rightarrow> (Inl e, self, w1)
           | Inr user_group_ids \<Rightarrow>
               (case subscript all_perm_groups ''data'' of
                  Inl e \<Rightarrow> (Inl e, self, w1)
                | Inr gs \<Rightarrow>
                    (case py_iter gs of
                       Inl e \<Rightarrow> (Inl e, self, w1)
                     | Inr groups \<Rightarrow>
                         (case collect_user_groups user_group_ids groups [] of
                            Inl e \<Rightarrow> (Inl e, self, w1)
                          | Inr user_group_list \<Rightarrow> (Inr (Some user_group_list), self, w1))))))"

definition get_user_groups ::
  "server \<Rightarrow> user_info_api \<Rightarrow> world \<Rightarrow> (exn + pyval list option) \<times> user_info_api \<times> world" where
  "get_user_groups srv self w =
     (if user_info self = PNone
      then (case check_user_api_key self True w of
              (False, w1) \<Rightarrow> (Inr None, self, w1)
            | (True, w1) \<Rightarrow>
                (case get_user_info srv self w1 of
                   (Inl e, w2) \<Rightarrow> (Inl e, self, w2)
                 | (Inr info, w2) \<Rightarrow> user_groups_of srv (self\<lparr>user_info := info\<rparr>) w2))
      else user_groups_of srv self w)"

text \<open>
  \<open>UserInfo.__init__\<close>: the two attributes are filled by the two getters, in this order.
\<close>

definition UserInfo_init ::
  "server \<Rightarrow> string option \<Rightarrow> string option \<Rightarrow> world \<Rightarrow> (exn + user_info_api) \<times> world" where
  "UserInfo_init srv given env w =
     (let base = CoreApi_init given env in
      case get_user_info srv base w of
        (Inl e, w1) \<Rightarrow> (Inl e, w1)
      | (Inr info, w1) \<Rightarrow>
          (let self = core_api.extend base \<lparr>user_info = info, user_groups = None\<rparr> in
           case get_user_groups srv self w1 of
             (Inl e, self2, w2) \<Rightarrow> (Inl e, w2)
           | (Inr groups, self2, w2) \<Rightarrow> (Inr (self2\<lparr>user_groups := groups\<rparr>), w2)))"

text \<open>Objects and a backend for concrete runs.\<close>

definition no_server :: server where
  "no_server = (\<lambda>log rq. None)"

definition world0 :: world where
  "world0 = \<lparr>sent = [], printed = []\<rparr>"

definition devices0 :: devices where
  "devices0 = Devices_init (Some ''key'') None"

definition sites0 :: sites where
  "sites0 = Sites_init (Some ''key'') None"

section \<open>Vocabulary of the claims and concrete inputs\<close>

text \<open>The keys of a mapping that are outside an allow-list, in the mapping's order.\<close>

definition offending :: "string list \<Rightarrow> pydict \<Rightarrow> string list" where
  "offending allowed attributes = filter (\<lambda>a. a \<notin> set allowed) (dict_keys attributes)"

text \<open>The attribute names an invalid-attribute error carries.\<close>

definition reported_invalid :: "exn + unit \<Rightarrow> string list option" where
  "reported_invalid res =
     (case res of
        Inl (ValueError (InvalidAttributesForUpdate k names)) \<Rightarrow> Some names
      | Inl (ValueError (InvalidAttributeGiven name)) \<Rightarrow> Some [name]
      | _ \<Rightarrow> None)"

text \<open>
  Attribute mappings for concrete runs: a public device without \<open>group_ids\<close> and the
  same mapping after the default fill, a mapping without any visibility flag, a mapping
  with two unknown keys, and an update with one unknown key.
\<close>

definition attrs_public :: pydict where
  "attrs_public = [(''short_name'', PStr ''X''), (''manufacturer_name'', PStr ''Y''), (''is_public'', PBool True)]"

definition filled_public :: pydict where
 "filled_public =  [(''short_name'', PStr ''X''), (''manufacturer_name'', PStr ''Y''), (''is_public'', PBool True), (''is_private'', PBool False), (''is_internal'', PBool False)]"

definition attrs_no_flags :: pydict where
  "attrs_no_flags = [(''short_name'', PStr ''X''), (''group_ids'', PList [PStr ''7''])]"

definition attrs_two_invalid :: pydict where
  "attrs_two_invalid = [(''is_public'', PBool True), (''foo'', PInt 1), (''bar'', PInt 2)]"

definition attrs_not_real :: pydict where
  "attrs_not_real = [(''description'', PStr ''new''), (''not_a_real_attr'', PStr ''x'')]"

definition answering_server :: server where
  "answering_server = (\<lambda>log rq. Some \<lparr>status_code = 200, body = Some (PDict [])\<rparr>)"

text \<open>
  A backend for concrete runs: it knows one device and one site, both named B, a user
  who is a member of the groups 3 and 1, and the permission groups 1, 2 and 3.
\<close>

definition device_b :: pyval where
  "device_b = PDict [(''id'', PStr ''2''), (''type'', PStr ''device''),
                     (''attributes'', PDict [(''short_name'', PStr ''B'')])]"

definition site_b :: pyval where
  "site_b = PDict [(''id'', PStr ''5''), (''type'', PStr ''site''),
                   (''attributes'', PDict [(''label'', PStr ''B'')])]"

definition group_of :: "string \<Rightarrow> pyval" where
  "group_of i = PDict [(''id'', PStr i), (''type'', PStr ''permission_group'')]"

definition user_with_groups :: pyval where
  "user_with_groups =
     PDict [(''data'', PDict [(''attributes'', PDict [(''member'', PList [PStr ''3'', PStr ''1''])])])]"

definition registry_server :: server where
  "registry_server = (\<lambda>log rq.
     case req_url rq of
       DeviceUrl i \<Rightarrow> Some \<lparr>status_code = 200, body = Some (PDict [(''data'', device_b)])\<rparr>
     | SiteUrl i \<Rightarrow> Some \<lparr>status_code = 200, body = Some (PDict [(''data'', site_b)])\<rparr>
     | UserInfoUrl \<Rightarrow> Some \<lparr>status_code = 200, body = Some user_with_groups\<rparr>
     | PermissionGroupsUrl \<Rightarrow>
         Some \<lparr>status_code = 200,
               body = Some (PDict [(''data'', PList [group_of ''1'', group_of ''2'', group_of ''3''])])\<rparr>
     | _ \<Rightarrow> Some \<lparr>status_code = 404, body = None\<rparr>)"

text \<open>
  The vocabulary of the user-groups claim: a group entry has an id, and its id is in a
  membership list when an element of the list equals it.
\<close>

definition has_id :: "pyval \<Rightarrow> bool" where
  "has_id g = (case subscript g ''id'' of Inl e \<Rightarrow> False | Inr gid \<Rightarrow> True)"

definition in_membership :: "pyval list \<Rightarrow> pyval \<Rightarrow> bool" where
  "in_membership ids g =
     (case subscript g ''id'' of
        Inl e \<Rightarrow> False
      | Inr gid \<Rightarrow> list_ex (\<lambda>y. py_eq y gid) ids)"

definition warning_line :: string where
  "warning_line = ''[WARNING]: No user API key found.''"

text \<open>
  User objects for concrete runs: one built with a key whose user information is loaded,
  one built with a key whose user information is still to be fetched (and the world after
  that fetch), and one built without a key.
\<close>

definition user_with_key :: user_info_api where
  "user_with_key =
     core_api.extend (CoreApi_init (Some ''k'') None)
       \<lparr>user_info = user_with_groups, user_groups = None\<rparr>"

definition user_without_key :: user_info_api where
  "user_without_key =
     core_api.extend (CoreApi_init None None) \<lparr>user_info = PNone, user_groups = None\<rparr>"

definition user_fresh :: user_info_api where
  "user_fresh =
     core_api.extend (CoreApi_init (Some ''k'') None) \<lparr>user_info = PNone, user_groups = None\<rparr>"

definition world_after_user_info :: world where
  "world_after_user_info = world0\<lparr>sent := [get_request user_fresh UserInfoUrl]\<rparr>"

text \<open>
  A second backend for concrete runs: two devices and two sites carry the name B, with
  the ids 9 and 2 (9 and 5 for the sites), the entity with id 9 first in the collection;
  the properties and configurations it returns name the id they were asked for.
\<close>

definition device_b9 :: pyval where
  "device_b9 = PDict [(''id'', PStr ''9''), (''type'', PStr ''device''),
                      (''attributes'', PDict [(''short_name'', PStr ''B'')])]"

definition site_b9 :: pyval where
  "site_b9 = PDict [(''id'', PStr ''9''), (''type'', PStr ''site''),
                    (''attributes'', PDict [(''label'', PStr ''B'')])]"

definition all_devices :: pyval where
  "all_devices = PDict [(''data'', PList [device_b9, device_b])]"

definition all_sites :: pyval where
  "all_sites = PDict [(''data'', PList [site_b9, site_b])]"

definition records_of :: "string \<Rightarrow> pyval" where
  "records_of i = PDict [(''data'', PList [PDict [(''belongs_to'', PStr i)]])]"

definition catalogue_server :: server where
  "catalogue_server = (\<lambda>log rq.
     case req_url rq of
       DeviceUrl i \<Rightarrow> Some \<lparr>status_code = 200, body = Some (PDict [(''data'', device_b)])\<rparr>
     | DevicesUrl \<Rightarrow> Some \<lparr>status_code = 200, body = Some all_devices\<rparr>
     | DevicePropertiesByDeviceUrl i \<Rightarrow> Some \<lparr>status_code = 200, body = Some (records_of i)\<rparr>
     | SiteUrl i \<Rightarrow> Some \<lparr>status_code = 200, body = Some (PDict [(''data'', site_b)])\<rparr>
     | SitesUrl \<Rightarrow> Some \<lparr>status_code = 200, body = Some all_sites\<rparr>
     | SiteConfigurationsUrl i \<Rightarrow> Some \<lparr>status_code = 200, body = Some (records_of i)\<rparr>
     | _ \<Rightarrow> Some \<lparr>status_code = 404, body = None\<rparr>)"

section \<open>Visibility classification\<close>

lemma coerce_flag_permissible:
  "permissible_flag v \<Longrightarrow> coerce_flag key v = Inr (flag_holds v)"
  by (cases v) (auto simp: permissible_flag_def coerce_flag_def flag_holds_def Let_def)

lemma visibility_loop_permissible:
  assumes "flags_permissible d"
  shows "visibility_loop d [''is_public'', ''is_internal'', ''is_private''] [] =
           Inr (filter (\<lambda>k. k \<in> true_flags d) [''is_public'', ''is_internal'', ''is_private''])"
proof -
  from assms obtain v1 v2 v3 where
    v: "map_of d ''is_private'' = Some v1" "map_of d ''is_internal'' = Some v2"
       "map_of d ''is_public'' = Some v3"
    and p: "permissible_flag v1" "permissible_flag v2" "permissible_flag v3"
    by (auto simp: flags_permissible_def visibility_flags_def split: option.splits)
  show ?thesis
    using v p
    by (simp add: dict_getitem_def coerce_flag_permissible true_flags_def visibility_flags_def)
qed

lemma true_flags_as_list:
  "true_flags d =
     set (filter (\<lambda>k. k \<in> true_flags d) [''is_public'', ''is_internal'', ''is_private''])"
  by (auto simp: true_flags_def visibility_flags_def)

text \<open>
  C1. On a mapping that holds the three flags, each a boolean or a string that lowers to
  \<open>true\<close>, \<open>1\<close>, \<open>false\<close> or \<open>0\<close>: when exactly one flag holds the check returns that
  flag's key, when none holds it raises the no-visibility error, and when two or more hold
  it raises the multiple-visibilities error whose list has exactly the holding keys.
\<close>

theorem check_device_visibility_classifies:
  assumes "flags_permissible d"
  shows "(\<forall>k. true_flags d = {k} \<longrightarrow> check_device_visibility d = Inr k)
       \<and> (true_flags d = {} \<longrightarrow> check_device_visibility d = Inl (ValueError NoVisibilities))
       \<and> (2 \<le> card (true_flags d) \<longrightarrow>
            (\<exists>ks. check_device_visibility d = Inl (ValueError (MultipleVisibilities ks))
                  \<and> set ks = true_flags d))"
proof -
  define T where
    "T = filter (\<lambda>k. k \<in> true_flags d) [''is_public'', ''is_internal'', ''is_private'']"
  have loop: "visibility_loop d [''is_public'', ''is_internal'', ''is_private''] [] = Inr T"
    unfolding T_def using assms by (rule visibility_loop_permissible)
  have T: "true_flags d = set T" unfolding T_def by (rule true_flags_as_list)
  have dist: "distinct T" unfolding T_def by simp
  have card: "card (true_flags d) = length T"
    using T dist distinct_card by metis
  have res: "check_device_visibility d =
      (if length T > 1 then Inl (ValueError (MultipleVisibilities T))
       else if length T = 0 then Inl (ValueError NoVisibilities)
       else Inr (T ! 0))"
    unfolding check_device_visibility_def loop by simp
  have one: "check_device_visibility d = Inr k" if "true_flags d = {k}" for k
  proof -
    from that card have len: "length T = 1" by simp
    then obtain x where x: "T = [x]" by (cases T) auto
    with T that have "x = k" by auto
    with res x show ?thesis by simp
  qed
  have zero: "check_device_visibility d = Inl (ValueError NoVisibilities)"
    if "true_flags d = {}"
  proof -
    from that card have "length T = 0" by simp
    with res show ?thesis by simp
  qed
  have many: "\<exists>ks. check_device_visibility d = Inl (ValueError (MultipleVisibilities ks))
                  \<and> set ks = true_flags d" if "2 \<le> card (true_flags d)"
  proof -
    from that card have "length T > 1" by simp
    with res T show ?thesis by auto
  qed
  from one zero many show ?thesis by blast
qed

lemma flags_one_facts:
  "flags_permissible flags_one" "true_flags flags_one = {''is_private''}"
  by (simp_all add: flags_one_def flags_permissible_def true_flags_def visibility_flags_def
        permissible_flag_def flag_holds_def lower_def lower_char_def)

lemma flags_none_facts:
  "flags_permissible flags_none" "true_flags flags_none = {}"
  by (simp_all add: flags_none_def flags_permissible_def true_flags_def visibility_flags_def
        permissible_flag_def flag_holds_def lower_def lower_char_def)

lemma flags_two_facts:
  "flags_permissible flags_two" "true_flags flags_two = {''is_private'', ''is_public''}"
  by (simp_all add: flags_two_def flags_permissible_def true_flags_def visibility_flags_def
        permissible_flag_def flag_holds_def lower_def lower_char_def)

theorem check_device_visibility_classifies_witness:
  "flags_permissible flags_one \<and> true_flags flags_one = {''is_private''}
     \<and> check_device_visibility flags_one = Inr ''is_private''
   \<and> flags_permissible flags_none \<and> true_flags flags_none = {}
     \<and> check_device_visibility flags_none = Inl (ValueError NoVisibilities)
   \<and> flags_permissible flags_two \<and> 2 \<le> card (true_flags flags_two)
     \<and> (\<exists>ks. check_device_visibility flags_two = Inl (ValueError (MultipleVisibilities ks))
            \<and> set ks = {''is_private'', ''is_public''})"
  using check_device_visibility_classifies [OF flags_one_facts(1)]
    check_device_visibility_classifies [OF flags_none_facts(1)]
    check_device_visibility_classifies [OF flags_two_facts(1)]
    flags_one_facts flags_none_facts flags_two_facts
  by simp

section \<open>Minimum required attributes\<close>

text \<open>
  C6. Every name required of a private device is required of an internal one, and every
  name required of an internal device is required of a public one.
\<close>

theorem min_attributes_superset_law:
  "set MIN_PRIVATE_DEVICE_ATTRIBUTES \<subseteq> set MIN_INTERNAL_DEVICE_ATTRIBUTES
   \<and> set MIN_INTERNAL_DEVICE_ATTRIBUTES \<subseteq> set MIN_PUBLIC_DEVICE_ATTRIBUTES"
  by (auto simp add: MIN_INTERNAL_DEVICE_ATTRIBUTES_def MIN_PUBLIC_DEVICE_ATTRIBUTES_def)

section \<open>The default fill and the attribute loops\<close>

lemma dict_contains_map_of: "dict_contains d k = (map_of d k \<noteq> None)"
  by (simp add: dict_contains_def map_of_eq_None_iff)

lemma map_of_fill_visibility:
  "map_of (fill_visibility ks a) k =
     (if k \<in> set ks \<and> map_of a k = None then Some (PBool False) else map_of a k)"
proof (induction ks arbitrary: a)
  case Nil
  show ?case by simp
next
  case (Cons x xs)
  show ?case
    by (auto simp: Cons.IH dict_contains_map_of dict_setitem_def update_conv')
qed

lemma collect_invalid_filter:
  "collect_invalid allowed ks acc = acc @ filter (\<lambda>a. a \<notin> set allowed) ks"
  by (induction ks arbitrary: acc) auto

lemma dict_keys_fill_visibility:
  "\<exists>extra. dict_keys (fill_visibility ks a) = dict_keys a @ extra \<and> set extra \<subseteq> set ks"
proof (induction ks arbitrary: a)
  case Nil
  show ?case by simp
next
  case (Cons x xs)
  show ?case
  proof (cases "dict_contains a x")
    case True
    with Cons.IH [of a] show ?thesis by auto
  next
    case False
    then have k: "dict_keys (dict_setitem a x (PBool False)) = dict_keys a @ [x]"
      by (simp add: dict_keys_def dict_setitem_def dict_contains_def update_keys)
    from Cons.IH [of "dict_setitem a x (PBool False)"] obtain extra where
      "dict_keys (fill_visibility xs (dict_setitem a x (PBool False))) =
         dict_keys (dict_setitem a x (PBool False)) @ extra" "set extra \<subseteq> set xs"
      by blast
    with k False show ?thesis by auto
  qed
qed

lemma collect_given_offending:
  "filter (\<lambda>a. a \<notin> set DEVICE_ATTRIBUTES) ks \<noteq> [] \<Longrightarrow>
   collect_given m ks acc =
     Inl (ValueError (InvalidAttributeGiven (hd (filter (\<lambda>a. a \<notin> set DEVICE_ATTRIBUTES) ks))))"
  by (induction ks arbitrary: acc) auto

lemma flags_allowed:
  "set [''is_private'', ''is_internal'', ''is_public''] \<subseteq> set DEVICE_ATTRIBUTES"
  by (simp add: DEVICE_ATTRIBUTES_def)

lemma offending_fill_visibility:
  "offending DEVICE_ATTRIBUTES
     (fill_visibility [''is_private'', ''is_internal'', ''is_public''] a) =
   offending DEVICE_ATTRIBUTES a"
proof -
  obtain extra where e:
    "dict_keys (fill_visibility [''is_private'', ''is_internal'', ''is_public''] a) =
       dict_keys a @ extra"
    "set extra \<subseteq> set [''is_private'', ''is_internal'', ''is_public'']"
    using dict_keys_fill_visibility by blast
  with flags_allowed have "set extra \<subseteq> set DEVICE_ATTRIBUTES" by blast
  then have "filter (\<lambda>a. a \<notin> set DEVICE_ATTRIBUTES) extra = []"
    by (auto simp: filter_empty_conv)
  with e(1) show ?thesis by (simp add: offending_def)
qed

lemma add_device_final_attributes:
  "fst (snd (add_device srv self a w)) =
     fill_visibility [''is_private'', ''is_internal'', ''is_public''] a"
proof -
  define f where "f = fill_visibility [''is_private'', ''is_internal'', ''is_public''] a"
  have "fst (snd (add_device srv self a w)) = f"
    unfolding add_device_def Let_def f_def [symmetric]
    by (simp split: sum.splits prod.splits)
  then show ?thesis by (simp add: f_def)
qed

section \<open>Creating a device\<close>

lemma fill_public: "fill_visibility [''is_private'', ''is_internal'', ''is_public''] attrs_public = filled_public"
  by (simp add: attrs_public_def filled_public_def dict_contains_def dict_setitem_def)

lemma vis_public: "check_device_visibility filled_public = Inr ''is_public''"
  by (simp add: filled_public_def check_device_visibility_def dict_getitem_def coerce_flag_def)

lemma given_public: "collect_given MIN_PUBLIC_DEVICE_ATTRIBUTES (dict_keys filled_public) [] =
   Inr [''short_name'', ''manufacturer_name'', ''is_public'', ''is_private'', ''is_internal'']"
  by (simp add: filled_public_def dict_keys_def DEVICE_ATTRIBUTES_def MIN_PUBLIC_DEVICE_ATTRIBUTES_def MIN_INTERNAL_DEVICE_ATTRIBUTES_def MIN_PRIVATE_DEVICE_ATTRIBUTES_def)

lemma missing_public: "set MIN_PUBLIC_DEVICE_ATTRIBUTES - set [''short_name'', ''manufacturer_name'', ''is_public'', ''is_private'', ''is_internal''] = {''group_ids''}"
  by (auto simp add: MIN_PUBLIC_DEVICE_ATTRIBUTES_def MIN_INTERNAL_DEVICE_ATTRIBUTES_def MIN_PRIVATE_DEVICE_ATTRIBUTES_def)

lemma len_public: "length MIN_PUBLIC_DEVICE_ATTRIBUTES = 6"
  by (simp add: MIN_PUBLIC_DEVICE_ATTRIBUTES_def MIN_INTERNAL_DEVICE_ATTRIBUTES_def MIN_PRIVATE_DEVICE_ATTRIBUTES_def)

lemma min_reqs_public: "min_reqs_for ''is_public'' = MIN_PUBLIC_DEVICE_ATTRIBUTES"
  by (simp add: min_reqs_for_def)

lemma add_device_public:
  "add_device srv self attrs_public w =
     (Inl (ValueError (MissingRequiredAttributes {''group_ids''})), filled_public, w)"
  unfolding add_device_def Let_def fill_public vis_public
  using missing_public by (simp add: min_reqs_public given_public len_public)

text \<open>
  C2. Creating a device from the short name X, the manufacturer name Y and
  \<open>is_public\<close> true, without \<open>group_ids\<close>: the two other flags are filled with false,
  the class is public, whose required names are those of an internal device (which
  include \<open>group_ids\<close>), every other required name is in the filled mapping, and the
  call raises the missing-attributes error that lists exactly \<open>group_ids\<close>.
\<close>

theorem add_device_public_without_group_ids:
  "add_device srv self attrs_public w =
     (Inl (ValueError (MissingRequiredAttributes {''group_ids''})), filled_public, w)
   \<and> fill_visibility [''is_private'', ''is_internal'', ''is_public''] attrs_public = filled_public
   \<and> check_device_visibility filled_public = Inr ''is_public''
   \<and> min_reqs_for ''is_public'' = MIN_INTERNAL_DEVICE_ATTRIBUTES
   \<and> ''group_ids'' \<in> set MIN_INTERNAL_DEVICE_ATTRIBUTES
   \<and> set (min_reqs_for ''is_public'') - {''group_ids''} \<subseteq> set (dict_keys filled_public)"
proof -
  have "min_reqs_for ''is_public'' = MIN_INTERNAL_DEVICE_ATTRIBUTES"
    by (simp add: min_reqs_for_def MIN_PUBLIC_DEVICE_ATTRIBUTES_def)
  moreover have "''group_ids'' \<in> set MIN_INTERNAL_DEVICE_ATTRIBUTES"
    by (simp add: MIN_INTERNAL_DEVICE_ATTRIBUTES_def)
  moreover have "set (min_reqs_for ''is_public'') - {''group_ids''} \<subseteq> set (dict_keys filled_public)"
    by (auto simp: min_reqs_public MIN_PUBLIC_DEVICE_ATTRIBUTES_def
        MIN_INTERNAL_DEVICE_ATTRIBUTES_def MIN_PRIVATE_DEVICE_ATTRIBUTES_def
        filled_public_def dict_keys_def)
  ultimately show ?thesis
    using add_device_public [of srv self w] fill_public vis_public by simp
qed

lemma check_visibility_all_false:
  assumes "map_of d ''is_private'' = Some (PBool False)"
    "map_of d ''is_internal'' = Some (PBool False)"
    "map_of d ''is_public'' = Some (PBool False)"
  shows "check_device_visibility d = Inl (ValueError NoVisibilities)"
  using assms by (simp add: check_device_visibility_def dict_getitem_def coerce_flag_def)

lemma add_device_visibility_error:
  assumes "check_device_visibility
             (fill_visibility [''is_private'', ''is_internal'', ''is_public''] a) = Inl e"
  shows "add_device srv self a w =
           (Inl e, fill_visibility [''is_private'', ''is_internal'', ''is_public''] a, w)"
  unfolding add_device_def Let_def assms by simp

text \<open>
  C5. When the mapping given to \<open>add_device\<close> holds none of the three visibility
  flags, all three are set to false before the classification, the call raises the
  no-visibility error, and nothing is sent to the backend: the world is unchanged.
\<close>

theorem add_device_without_flags:
  assumes "\<not> dict_contains a ''is_private''" "\<not> dict_contains a ''is_internal''"
    "\<not> dict_contains a ''is_public''"
  shows "fst (add_device srv self a w) = Inl (ValueError NoVisibilities)
       \<and> snd (snd (add_device srv self a w)) = w
       \<and> map_of (fst (snd (add_device srv self a w))) ''is_private'' = Some (PBool False)
       \<and> map_of (fst (snd (add_device srv self a w))) ''is_internal'' = Some (PBool False)
       \<and> map_of (fst (snd (add_device srv self a w))) ''is_public'' = Some (PBool False)"
proof -
  let ?f = "fill_visibility [''is_private'', ''is_internal'', ''is_public''] a"
  from assms have m: "map_of ?f ''is_private'' = Some (PBool False)"
    "map_of ?f ''is_internal'' = Some (PBool False)"
    "map_of ?f ''is_public'' = Some (PBool False)"
    unfolding map_of_fill_visibility by (simp_all add: dict_contains_map_of)
  then have "check_device_visibility ?f = Inl (ValueError NoVisibilities)"
    by (rule check_visibility_all_false)
  then have "add_device srv self a w = (Inl (ValueError NoVisibilities), ?f, w)"
    by (rule add_device_visibility_error)
  with m show ?thesis by simp
qed

theorem add_device_without_flags_witness:
  "\<not> dict_contains attrs_no_flags ''is_private''
   \<and> \<not> dict_contains attrs_no_flags ''is_internal''
   \<and> \<not> dict_contains attrs_no_flags ''is_public''
   \<and> fst (add_device no_server devices0 attrs_no_flags world0) = Inl (ValueError NoVisibilities)
   \<and> snd (snd (add_device no_server devices0 attrs_no_flags world0)) = world0"
proof -
  have h: "\<not> dict_contains attrs_no_flags ''is_private''"
    "\<not> dict_contains attrs_no_flags ''is_internal''"
    "\<not> dict_contains attrs_no_flags ''is_public''"
    by (simp_all add: attrs_no_flags_def dict_contains_def)
  from add_device_without_flags [OF h, of no_server devices0 world0] h
  show ?thesis by simp
qed

text \<open>
  C10. \<open>add_device\<close> writes into the caller's mapping: whether it returns or raises,
  the mapping the caller holds afterwards binds every visibility flag that was missing
  to false, and every other key as before.
\<close>

theorem add_device_fills_caller_mapping:
  "(\<forall>k \<in> set visibility_flags. \<not> dict_contains a k \<longrightarrow>
       map_of (fst (snd (add_device srv self a w))) k = Some (PBool False))
   \<and> (\<forall>k. dict_contains a k \<longrightarrow>
         map_of (fst (snd (add_device srv self a w))) k = map_of a k)
   \<and> (\<forall>k. k \<notin> set visibility_flags \<longrightarrow>
         map_of (fst (snd (add_device srv self a w))) k = map_of a k)"
  unfolding add_device_final_attributes map_of_fill_visibility
  by (auto simp: dict_contains_map_of visibility_flags_def)

theorem add_device_fills_caller_mapping_witness:
  "''is_private'' \<in> set visibility_flags \<and> \<not> dict_contains attrs_public ''is_private''
   \<and> map_of (fst (snd (add_device no_server devices0 attrs_public world0))) ''is_private''
       = Some (PBool False)
   \<and> dict_contains attrs_public ''is_public''
   \<and> map_of (fst (snd (add_device no_server devices0 attrs_public world0))) ''is_public''
       = Some (PBool True)
   \<and> ''short_name'' \<notin> set visibility_flags
   \<and> map_of (fst (snd (add_device no_server devices0 attrs_public world0))) ''short_name''
       = Some (PStr ''X'')"
proof -
  have h: "''is_private'' \<in> set visibility_flags" "\<not> dict_contains attrs_public ''is_private''"
    "dict_contains attrs_public ''is_public''" "''short_name'' \<notin> set visibility_flags"
    by (simp_all add: visibility_flags_def attrs_public_def dict_contains_def)
  have m: "map_of attrs_public ''is_public'' = Some (PBool True)"
    "map_of attrs_public ''short_name'' = Some (PStr ''X'')"
    by (simp_all add: attrs_public_def)
  from add_device_fills_caller_mapping [of attrs_public no_server devices0 world0] h m
  show ?thesis by auto
qed

section \<open>The allow-list\<close>

lemma update_device_by_id_invalid:
  assumes "offending DEVICE_ATTRIBUTES a \<noteq> []"
  shows "update_device_by_id srv self device_id a w =
           (Inl (ValueError (InvalidAttributesForUpdate Device (offending DEVICE_ATTRIBUTES a))), w)"
  using assms
  by (simp add: update_device_by_id_def Let_def collect_invalid_filter offending_def)

lemma update_site_by_id_invalid:
  assumes "offending SITE_ATTRIBUTES a \<noteq> []"
  shows "update_site_by_id srv self site_id a w =
           (Inl (ValueError (InvalidAttributesForUpdate Site (offending SITE_ATTRIBUTES a))), w)"
  using assms
  by (simp add: update_site_by_id_def Let_def collect_invalid_filter offending_def)

lemma add_device_invalid:
  assumes off: "offending DEVICE_ATTRIBUTES a \<noteq> []"
    and vis: "check_device_visibility
           (fill_visibility [''is_private'', ''is_internal'', ''is_public''] a) = Inr vis"
  shows "add_device srv self a w =
           (Inl (ValueError (InvalidAttributeGiven (hd (offending DEVICE_ATTRIBUTES a)))),
            fill_visibility [''is_private'', ''is_internal'', ''is_public''] a, w)"
proof -
  define f where "f = fill_visibility [''is_private'', ''is_internal'', ''is_public''] a"
  have o: "offending DEVICE_ATTRIBUTES f = offending DEVICE_ATTRIBUTES a"
    unfolding f_def by (rule offending_fill_visibility)
  with off have "filter (\<lambda>a. a \<notin> set DEVICE_ATTRIBUTES) (dict_keys f) \<noteq> []"
    by (simp add: offending_def)
  then have "collect_given (min_reqs_for vis) (dict_keys f) [] =
     Inl (ValueError (InvalidAttributeGiven (hd (filter (\<lambda>a. a \<notin> set DEVICE_ATTRIBUTES) (dict_keys f)))))"
    by (rule collect_given_offending)
  then have c: "collect_given (min_reqs_for vis) (dict_keys f) [] =
     Inl (ValueError (InvalidAttributeGiven (hd (offending DEVICE_ATTRIBUTES a))))"
    using o by (simp add: offending_def)
  have v: "check_device_visibility f = Inr vis"
    unfolding f_def by (rule vis)
  show ?thesis
    unfolding add_device_def Let_def f_def [symmetric] by (simp add: v c)
qed

text \<open>
  C3, as the code has it. On a mapping with keys outside the allow-list,
  \<open>update_device_by_id\<close> and \<open>update_site_by_id\<close> raise the invalid-attributes error
  with every offending key, in the mapping's order; \<open>add_device\<close>, once the
  visibility of the filled mapping is classified, raises the invalid-attribute error
  with the first offending key only.
\<close>

theorem invalid_attributes_reported:
  "(offending DEVICE_ATTRIBUTES a \<noteq> [] \<longrightarrow>
      reported_invalid (fst (update_device_by_id srv dself device_id a w))
        = Some (offending DEVICE_ATTRIBUTES a))
   \<and> (offending SITE_ATTRIBUTES a \<noteq> [] \<longrightarrow>
      reported_invalid (fst (update_site_by_id srv sself site_id a w))
        = Some (offending SITE_ATTRIBUTES a))
   \<and> (offending DEVICE_ATTRIBUTES a \<noteq> [] \<and>
       check_device_visibility
         (fill_visibility [''is_private'', ''is_internal'', ''is_public''] a) = Inr vis \<longrightarrow>
      reported_invalid (fst (add_device srv dself a w))
        = Some [hd (offending DEVICE_ATTRIBUTES a)])"
  by (simp add: update_device_by_id_invalid update_site_by_id_invalid add_device_invalid
      reported_invalid_def)

lemma offending_two_invalid:
  "offending DEVICE_ATTRIBUTES attrs_two_invalid = [''foo'', ''bar'']"
  "offending SITE_ATTRIBUTES attrs_two_invalid = [''foo'', ''bar'']"
  by (simp_all add: offending_def attrs_two_invalid_def dict_keys_def DEVICE_ATTRIBUTES_def
      SITE_ATTRIBUTES_def)

lemma vis_two_invalid:
  "check_device_visibility
     (fill_visibility [''is_private'', ''is_internal'', ''is_public''] attrs_two_invalid)
     = Inr ''is_public''"
  by (simp add: attrs_two_invalid_def dict_contains_def dict_setitem_def
      check_device_visibility_def dict_getitem_def coerce_flag_def)

theorem invalid_attributes_reported_witness:
  "offending DEVICE_ATTRIBUTES attrs_two_invalid \<noteq> []
   \<and> reported_invalid (fst (update_device_by_id no_server devices0 (PInt 1) attrs_two_invalid world0))
       = Some [''foo'', ''bar'']
   \<and> offending SITE_ATTRIBUTES attrs_two_invalid \<noteq> []
   \<and> reported_invalid (fst (update_site_by_id no_server sites0 (PInt 1) attrs_two_invalid world0))
       = Some [''foo'', ''bar'']
   \<and> check_device_visibility
         (fill_visibility [''is_private'', ''is_internal'', ''is_public''] attrs_two_invalid)
        = Inr ''is_public''
   \<and> reported_invalid (fst (add_device no_server devices0 attrs_two_invalid world0))
       = Some [''foo'']"
  using invalid_attributes_reported
    [of attrs_two_invalid no_server devices0 "PInt 1" world0 sites0 "PInt 1" "''is_public''"]
    offending_two_invalid vis_two_invalid
  by simp

text \<open>
  C3 as stated fails for creation: with the two unknown keys \<open>foo\<close> and \<open>bar\<close>,
  \<open>add_device\<close> reports \<open>foo\<close> alone.
\<close>

theorem add_device_reports_first_invalid_only:
  "offending DEVICE_ATTRIBUTES attrs_two_invalid = [''foo'', ''bar'']
   \<and> fst (add_device no_server devices0 attrs_two_invalid world0)
       = Inl (ValueError (InvalidAttributeGiven ''foo''))
   \<and> reported_invalid (fst (add_device no_server devices0 attrs_two_invalid world0))
       \<noteq> Some (offending DEVICE_ATTRIBUTES attrs_two_invalid)"
proof -
  have "offending DEVICE_ATTRIBUTES attrs_two_invalid \<noteq> []"
    by (simp add: offending_two_invalid)
  from add_device_invalid [OF this vis_two_invalid, of no_server devices0 world0]
  show ?thesis
    by (simp add: offending_two_invalid reported_invalid_def)
qed

lemma offending_nonempty:
  "k \<in> set (dict_keys a) \<Longrightarrow> k \<notin> set allowed \<Longrightarrow> k \<in> set (offending allowed a)"
  by (simp add: offending_def)

section \<open>The API key and the headers\<close>

lemma CoreApi_init_headers: "headers (CoreApi_init given env) = headers_for (api_key (CoreApi_init given env))"
  by (simp add: CoreApi_init_def headers_for_def Let_def)

text \<open>
  C4 fails on the code. The constructor derives the headers from the key, but
  \<open>add_api_key\<close> stores the new key and leaves the headers as they were: after a
  construction without a key and \<open>add_api_key\<close>, the key is there and the X-APIKEY
  header is still \<open>None\<close>, and that stale header is what \<open>get_user_info\<close> sends.
\<close>

theorem add_api_key_leaves_headers_stale:
  "api_key (CoreApi_init None None) = None
   \<and> headers (CoreApi_init None None) = headers_for None
   \<and> api_key (add_api_key (CoreApi_init None None) ''k'') = Some ''k''
   \<and> headers (add_api_key (CoreApi_init None None) ''k'') = headers_for None
   \<and> headers (add_api_key (CoreApi_init None None) ''k'')
        \<noteq> headers_for (api_key (add_api_key (CoreApi_init None None) ''k''))
   \<and> map req_headers
        (sent (snd (get_user_info registry_server
                      (add_api_key (CoreApi_init None None) ''k'') world0)))
        = [headers_for None]"
  by (simp add: CoreApi_init_def add_api_key_def headers_for_def resolve_api_key_def Let_def
      get_user_info_def check_user_api_key_def send_def get_request_def world0_def
      registry_server_def split: prod.splits)

section \<open>Lookups given both an id and a name\<close>

lemma send_world:
  "snd (send srv rq w) = w\<lparr>sent := sent w @ [rq]\<rparr>"
  by (simp add: send_def split: option.splits)

lemma get_device_by_id_world:
  "snd (get_device_by_id srv self i w) =
     w\<lparr>sent := sent w @ [get_request self (DeviceUrl (py_str i))]\<rparr>"
proof -
  obtain res w1 where s: "send srv (get_request self (DeviceUrl (py_str i))) w = (res, w1)"
    by (cases "send srv (get_request self (DeviceUrl (py_str i))) w")
  with send_world [of srv "get_request self (DeviceUrl (py_str i))" w]
  have "w1 = w\<lparr>sent := sent w @ [get_request self (DeviceUrl (py_str i))]\<rparr>" by simp
  with s show ?thesis
    by (simp add: get_device_by_id_def split: sum.splits)
qed

lemma get_devices_sent:
  "prefix (sent w) (sent (snd (snd (get_devices srv self w))))"
proof -
  obtain res w1 where s: "send srv (get_request self DevicesUrl) w = (res, w1)"
    by (cases "send srv (get_request self DevicesUrl) w")
  with send_world [of srv "get_request self DevicesUrl" w]
  have "w1 = w\<lparr>sent := sent w @ [get_request self DevicesUrl]\<rparr>" by simp
  with s show ?thesis
    by (simp add: get_devices_def split: sum.splits)
qed

lemma get_device_by_name_sent:
  "prefix (sent w) (sent (snd (snd (get_device_by_name srv self name w))))"
proof (cases "all_device_data self = PNone")
  case True
  obtain res self1 w1 where g: "get_devices srv self w = (res, self1, w1)"
    by (cases "get_devices srv self w")
  with get_devices_sent [of w srv self] have "prefix (sent w) (sent w1)" by simp
  with True g show ?thesis
    by (simp add: get_device_by_name_def split: sum.splits option.splits)
next
  case False
  then show ?thesis
    by (simp add: get_device_by_name_def split: sum.splits option.splits)
qed

lemma fetch_device_properties_sent:
  "prefix (sent w) (sent (snd (fetch_device_properties srv self i w)))"
proof -
  let ?rq = "get_request self (DevicePropertiesByDeviceUrl (py_str i))"
  obtain res w1 where s: "send srv ?rq w = (res, w1)"
    by (cases "send srv ?rq w")
  with send_world [of srv ?rq w]
  have "w1 = w\<lparr>sent := sent w @ [?rq]\<rparr>" by simp
  with s show ?thesis
    by (simp add: fetch_device_properties_def split: sum.splits)
qed

lemma check_device_id_and_name_cases:
  assumes "device_id \<noteq> PNone"
  shows "check_device_id_and_name srv self device_id (Some name) w =
     (case fst (get_device_by_id srv self device_id w) of
        Inl e \<Rightarrow> Inl e
      | Inr device \<Rightarrow>
          (case subscripts device [''attributes'', ''short_name''] of
             Inl e \<Rightarrow> Inl e
           | Inr v \<Rightarrow> if \<not> py_eq v (PStr name)
                      then Inl (ValueError (IdAndNameDoNotMatch Device)) else Inr ()),
      snd (get_device_by_id srv self device_id w))"
  using assms
  by (cases "get_device_by_id srv self device_id w")
     (simp add: check_device_id_and_name_def split: sum.splits)

lemma get_device_properties_sent:
  "prefix (sent (snd (check_device_id_and_name srv self device_id device_name w)))
          (sent (snd (snd (get_device_properties srv self device_id device_name w))))"
proof -
  obtain res w1 where c: "check_device_id_and_name srv self device_id device_name w = (res, w1)"
    by (cases "check_device_id_and_name srv self device_id device_name w")
  show ?thesis
  proof (cases res)
    case (Inl e)
    with c show ?thesis by (simp add: get_device_properties_def)
  next
    case (Inr u)
    show ?thesis
    proof (cases device_name)
      case None
      with c Inr fetch_device_properties_sent [of w1 srv self device_id] show ?thesis
        by (auto simp add: get_device_properties_def split: prod.splits)
    next
      case (Some name)
      obtain r2 self2 w2 where g: "get_device_by_name srv self name w1 = (r2, self2, w2)"
        by (cases "get_device_by_name srv self name w1")
      with get_device_by_name_sent [of w1 srv self name] have p: "prefix (sent w1) (sent w2)"
        by simp
      have q: "prefix (sent w1) (sent x)"
        if "fetch_device_properties srv self2 i w2 = (r, x)" for i r x
        using that p fetch_device_properties_sent [of w2 srv self2 i]
        by (auto intro: prefix_order.trans)
      from c Inr Some g p q show ?thesis
        by (auto simp add: get_device_properties_def split: sum.splits prod.splits)
    qed
  qed
qed


lemma get_device_properties_check_fails:
  assumes "fst (check_device_id_and_name srv self device_id device_name w) = Inl e"
  shows "get_device_properties srv self device_id device_name w =
           (Inl e, self, snd (check_device_id_and_name srv self device_id device_name w))"
  using assms
  by (cases "check_device_id_and_name srv self device_id device_name w")
     (simp add: get_device_properties_def)

lemma get_device_properties_check_passed:
  assumes "fst (get_device_properties srv self device_id device_name w) = Inr props"
  shows "fst (check_device_id_and_name srv self device_id device_name w) = Inr ()"
proof (cases "fst (check_device_id_and_name srv self device_id device_name w)")
  case (Inl e)
  from get_device_properties_check_fails [OF this] assms show ?thesis by simp
next
  case (Inr u)
  then show ?thesis by simp
qed

lemma device_mismatch:
  assumes "device_id \<noteq> PNone"
    and "fst (get_device_by_id srv self device_id w) = Inr device"
    and "subscripts device [''attributes'', ''short_name''] = Inr v"
    and "\<not> py_eq v (PStr name)"
  shows "get_device_properties srv self device_id (Some name) w =
           (Inl (ValueError (IdAndNameDoNotMatch Device)), self,
            snd (get_device_by_id srv self device_id w))"
proof -
  have c: "check_device_id_and_name srv self device_id (Some name) w =
       (Inl (ValueError (IdAndNameDoNotMatch Device)), snd (get_device_by_id srv self device_id w))"
    unfolding check_device_id_and_name_cases [OF assms(1)] using assms(2-4) by simp
  then have "fst (check_device_id_and_name srv self device_id (Some name) w) =
       Inl (ValueError (IdAndNameDoNotMatch Device))" by simp
  from get_device_properties_check_fails [OF this] c show ?thesis by simp
qed

lemma device_success_names_agree:
  assumes "device_id \<noteq> PNone"
    and "fst (get_device_properties srv self device_id (Some name) w) = Inr props"
  shows "\<exists>device v. fst (get_device_by_id srv self device_id w) = Inr device
           \<and> subscripts device [''attributes'', ''short_name''] = Inr v
           \<and> py_eq v (PStr name)"
proof -
  from get_device_properties_check_passed [OF assms(2)]
  have "fst (check_device_id_and_name srv self device_id (Some name) w) = Inr ()" .
  then show ?thesis
    unfolding check_device_id_and_name_cases [OF assms(1)]
    by (auto simp del: subscripts.simps split: sum.splits if_splits)
qed

lemma device_fetch_first:
  assumes "device_id \<noteq> PNone"
  shows "prefix (sent w @ [get_request self (DeviceUrl (py_str device_id))])
           (sent (snd (snd (get_device_properties srv self device_id (Some name) w))))"
proof -
  have "snd (check_device_id_and_name srv self device_id (Some name) w) =
          snd (get_device_by_id srv self device_id w)"
    unfolding check_device_id_and_name_cases [OF assms] by simp
  with get_device_properties_sent [of srv self device_id "Some name" w]
  show ?thesis by (simp add: get_device_by_id_world)
qed

lemma device_names_agree:
  assumes "device_id \<noteq> PNone"
    and "fst (get_device_by_id srv self device_id w) = Inr device"
    and "subscripts device [''attributes'', ''short_name''] = Inr v"
    and "py_eq v (PStr name)"
  shows "get_device_properties srv self device_id (Some name) w =
           get_device_properties srv self PNone (Some name)
             (snd (get_device_by_id srv self device_id w))"
proof -
  have c: "check_device_id_and_name srv self device_id (Some name) w =
       (Inr (), snd (get_device_by_id srv self device_id w))"
    unfolding check_device_id_and_name_cases [OF assms(1)] using assms(2-4) by simp
  have n: "check_device_id_and_name srv self PNone (Some name) w' = (Inr (), w')" for w'
    by (simp add: check_device_id_and_name_def)
  show ?thesis
    unfolding get_device_properties_def c n using assms(1) by simp
qed

lemma get_site_by_id_world:
  "snd (get_site_by_id srv self i w) =
     w\<lparr>sent := sent w @ [get_request self (SiteUrl (py_str i))]\<rparr>"
proof -
  obtain res w1 where s: "send srv (get_request self (SiteUrl (py_str i))) w = (res, w1)"
    by (cases "send srv (get_request self (SiteUrl (py_str i))) w")
  with send_world [of srv "get_request self (SiteUrl (py_str i))" w]
  have "w1 = w\<lparr>sent := sent w @ [get_request self (SiteUrl (py_str i))]\<rparr>" by simp
  with s show ?thesis
    by (simp add: get_site_by_id_def split: sum.splits)
qed

lemma get_sites_sent:
  "prefix (sent w) (sent (snd (snd (get_sites srv self w))))"
proof -
  obtain res w1 where s: "send srv (get_request self SitesUrl) w = (res, w1)"
    by (cases "send srv (get_request self SitesUrl) w")
  with send_world [of srv "get_request self SitesUrl" w]
  have "w1 = w\<lparr>sent := sent w @ [get_request self SitesUrl]\<rparr>" by simp
  with s show ?thesis
    by (simp add: get_sites_def split: sum.splits)
qed

lemma get_site_by_name_sent:
  "prefix (sent w) (sent (snd (snd (get_site_by_name srv self name w))))"
proof (cases "all_site_data self = PNone")
  case True
  obtain res self1 w1 where g: "get_sites srv self w = (res, self1, w1)"
    by (cases "get_sites srv self w")
  with get_sites_sent [of w srv self] have "prefix (sent w) (sent w1)" by simp
  with True g show ?thesis
    by (simp add: get_site_by_name_def split: sum.splits option.splits)
next
  case False
  then show ?thesis
    by (simp add: get_site_by_name_def split: sum.splits option.splits)
qed

lemma fetch_site_configurations_sent:
  "prefix (sent w) (sent (snd (fetch_site_configurations srv self i w)))"
proof -
  let ?rq = "get_request self (SiteConfigurationsUrl (py_str i))"
  obtain res w1 where s: "send srv ?rq w = (res, w1)"
    by (cases "send srv ?rq w")
  with send_world [of srv ?rq w]
  have "w1 = w\<lparr>sent := sent w @ [?rq]\<rparr>" by simp
  with s show ?thesis
    by (simp add: fetch_site_configurations_def split: sum.splits)
qed

lemma check_site_id_and_name_cases:
  assumes "site_id \<noteq> PNone"
  shows "check_site_id_and_name srv self site_id (Some name) w =
     (case fst (get_site_by_id srv self site_id w) of
        Inl e \<Rightarrow> Inl e
      | Inr site \<Rightarrow>
          (case subscripts site [''attributes'', ''label''] of
             Inl e \<Rightarrow> Inl e
           | Inr v \<Rightarrow> if \<not> py_eq v (PStr name)
                      then Inl (ValueError (IdAndNameDoNotMatch Site)) else Inr ()),
      snd (get_site_by_id srv self site_id w))"
  using assms
  by (cases "get_site_by_id srv self site_id w")
     (simp add: check_site_id_and_name_def split: sum.splits)

lemma get_site_configurations_sent:
  "prefix (sent (snd (check_site_id_and_name srv self site_id site_name w)))
          (sent (snd (snd (get_site_configurations srv self site_id site_name w))))"
proof -
  obtain res w1 where c: "check_site_id_and_name srv self site_id site_name w = (res, w1)"
    by (cases "check_site_id_and_name srv self site_id site_name w")
  show ?thesis
  proof (cases res)
    case (Inl e)
    with c show ?thesis by (simp add: get_site_configurations_def)
  next
    case (Inr u)
    show ?thesis
    proof (cases site_name)
      case None
      with c Inr fetch_site_configurations_sent [of w1 srv self site_id] show ?thesis
        by (auto simp add: get_site_configurations_def split: prod.splits)
    next
      case (Some name)
      obtain r2 self2 w2 where g: "get_site_by_name srv self name w1 = (r2, self2, w2)"
        by (cases "get_site_by_name srv self name w1")
      with get_site_by_name_sent [of w1 srv self name] have p: "prefix (sent w1) (sent w2)"
        by simp
      have q: "prefix (sent w1) (sent x)"
        if "fetch_site_configurations srv self2 i w2 = (r, x)" for i r x
        using that p fetch_site_configurations_sent [of w2 srv self2 i]
        by (auto intro: prefix_order.trans)
      from c Inr Some g p q show ?thesis
        by (auto simp add: get_site_configurations_def split: sum.splits prod.splits)
    qed
  qed
qed


lemma get_site_configurations_check_fails:
  assumes "fst (check_site_id_and_name srv self site_id site_name w) = Inl e"
  shows "get_site_configurations srv self site_id site_name w =
           (Inl e, self, snd (check_site_id_and_name srv self site_id site_name w))"
  using assms
  by (cases "check_site_id_and_name srv self site_id site_name w")
     (simp add: get_site_configurations_def)

lemma get_site_configurations_check_passed:
  assumes "fst (get_site_configurations srv self site_id site_name w) = Inr props"
  shows "fst (check_site_id_and_name srv self site_id site_name w) = Inr ()"
proof (cases "fst (check_site_id_and_name srv self site_id site_name w)")
  case (Inl e)
  from get_site_configurations_check_fails [OF this] assms show ?thesis by simp
next
  case (Inr u)
  then show ?thesis by simp
qed

lemma site_mismatch:
  assumes "site_id \<noteq> PNone"
    and "fst (get_site_by_id srv self site_id w) = Inr site"
    and "subscripts site [''attributes'', ''label''] = Inr v"
    and "\<not> py_eq v (PStr name)"
  shows "get_site_configurations srv self site_id (Some name) w =
           (Inl (ValueError (IdAndNameDoNotMatch Site)), self,
            snd (get_site_by_id srv self site_id w))"
proof -
  have c: "check_site_id_and_name srv self site_id (Some name) w =
       (Inl (ValueError (IdAndNameDoNotMatch Site)), snd (get_site_by_id srv self site_id w))"
    unfolding check_site_id_and_name_cases [OF assms(1)] using assms(2-4) by simp
  then have "fst (check_site_id_and_name srv self site_id (Some name) w) =
       Inl (ValueError (IdAndNameDoNotMatch Site))" by simp
  from get_site_configurations_check_fails [OF this] c show ?thesis by simp
qed

lemma site_success_names_agree:
  assumes "site_id \<noteq> PNone"
    and "fst (get_site_configurations srv self site_id (Some name) w) = Inr props"
  shows "\<exists>site v. fst (get_site_by_id srv self site_id w) = Inr site
           \<and> subscripts site [''attributes'', ''label''] = Inr v
           \<and> py_eq v (PStr name)"
proof -
  from get_site_configurations_check_passed [OF assms(2)]
  have "fst (check_site_id_and_name srv self site_id (Some name) w) = Inr ()" .
  then show ?thesis
    unfolding check_site_id_and_name_cases [OF assms(1)]
    by (auto simp del: subscripts.simps split: sum.splits if_splits)
qed

lemma site_fetch_first:
  assumes "site_id \<noteq> PNone"
  shows "prefix (sent w @ [get_request self (SiteUrl (py_str site_id))])
           (sent (snd (snd (get_site_configurations srv self site_id (Some name) w))))"
proof -
  have "snd (check_site_id_and_name srv self site_id (Some name) w) =
          snd (get_site_by_id srv self site_id w)"
    unfolding check_site_id_and_name_cases [OF assms] by simp
  with get_site_configurations_sent [of srv self site_id "Some name" w]
  show ?thesis by (simp add: get_site_by_id_world)
qed

lemma site_names_agree:
  assumes "site_id \<noteq> PNone"
    and "fst (get_site_by_id srv self site_id w) = Inr site"
    and "subscripts site [''attributes'', ''label''] = Inr v"
    and "py_eq v (PStr name)"
  shows "get_site_configurations srv self site_id (Some name) w =
           get_site_configurations srv self PNone (Some name)
             (snd (get_site_by_id srv self site_id w))"
proof -
  have c: "check_site_id_and_name srv self site_id (Some name) w =
       (Inr (), snd (get_site_by_id srv self site_id w))"
    unfolding check_site_id_and_name_cases [OF assms(1)] using assms(2-4) by simp
  have n: "check_site_id_and_name srv self PNone (Some name) w' = (Inr (), w')" for w'
    by (simp add: check_site_id_and_name_def)
  show ?thesis
    unfolding get_site_configurations_def c n using assms(1) by simp
qed

text \<open>
  What holds when both an id and a name are given: the first request is the fetch of the
  entity by id; a fetched name that differs from the given one raises the mismatch error
  after that one request; a call that returns has found the two names equal.
\<close>

lemma id_and_name_compared:
  assumes "device_id \<noteq> PNone" and "site_id \<noteq> PNone"
  shows
    "prefix (sent w @ [get_request dself (DeviceUrl (py_str device_id))])
       (sent (snd (snd (get_device_properties srv dself device_id (Some name) w))))
     \<and> (\<forall>device v.
          fst (get_device_by_id srv dself device_id w) = Inr device
          \<and> subscripts device [''attributes'', ''short_name''] = Inr v
          \<and> \<not> py_eq v (PStr name) \<longrightarrow>
          get_device_properties srv dself device_id (Some name) w =
            (Inl (ValueError (IdAndNameDoNotMatch Device)), dself,
             w\<lparr>sent := sent w @ [get_request dself (DeviceUrl (py_str device_id))]\<rparr>))
     \<and> (\<forall>props.
          fst (get_device_properties srv dself device_id (Some name) w) = Inr props \<longrightarrow>
          (\<exists>device v. fst (get_device_by_id srv dself device_id w) = Inr device
             \<and> subscripts device [''attributes'', ''short_name''] = Inr v
             \<and> py_eq v (PStr name)))
     \<and> prefix (sent w @ [get_request sself (SiteUrl (py_str site_id))])
       (sent (snd (snd (get_site_configurations srv sself site_id (Some name) w))))
     \<and> (\<forall>site v.
          fst (get_site_by_id srv sself site_id w) = Inr site
          \<and> subscripts site [''attributes'', ''label''] = Inr v
          \<and> \<not> py_eq v (PStr name) \<longrightarrow>
          get_site_configurations srv sself site_id (Some name) w =
            (Inl (ValueError (IdAndNameDoNotMatch Site)), sself,
             w\<lparr>sent := sent w @ [get_request sself (SiteUrl (py_str site_id))]\<rparr>))
     \<and> (\<forall>confs.
          fst (get_site_configurations srv sself site_id (Some name) w) = Inr confs \<longrightarrow>
          (\<exists>site v. fst (get_site_by_id srv sself site_id w) = Inr site
             \<and> subscripts site [''attributes'', ''label''] = Inr v
             \<and> py_eq v (PStr name)))"
  using device_fetch_first [OF assms(1)] device_mismatch [OF assms(1)]
    device_success_names_agree [OF assms(1)]
    site_fetch_first [OF assms(2)] site_mismatch [OF assms(2)]
    site_success_names_agree [OF assms(2)]
  by (simp add: get_device_by_id_world get_site_by_id_world del: subscripts.simps)

text \<open>
  When the names agree the call goes on as if only the name had been given
  (\<open>device_names_agree\<close>, \<open>site_names_agree\<close>): the id it then asks the backend about is
  the one the snapshot holds for the name, not the caller's.
\<close>

lemma catalogue_device:
  "get_device_by_id catalogue_server devices0 (PStr ''2'') world0 =
     (Inr device_b, world0\<lparr>sent := [get_request devices0 (DeviceUrl ''2'')]\<rparr>)"
  by (simp add: get_device_by_id_def send_def catalogue_server_def get_request_def
      response_json_def subscript_def dict_getitem_def world0_def py_str_def)

lemma catalogue_devices:
  "get_device_by_name catalogue_server devices0 ''B'' w =
     (Inr device_b9, devices0\<lparr>all_device_data := all_devices\<rparr>,
      w\<lparr>sent := sent w @ [get_request devices0 DevicesUrl]\<rparr>)"
  by (simp add: get_device_by_name_def get_devices_def devices0_def Devices_init_def
      core_api.defs send_def catalogue_server_def get_request_def response_json_def
      all_devices_def subscript_def dict_getitem_def py_iter_def device_b9_def device_b_def)

lemma catalogue_properties:
  "fetch_device_properties catalogue_server self (PStr ''9'') w =
     (Inr (records_of ''9''),
      w\<lparr>sent := sent w @ [get_request self (DevicePropertiesByDeviceUrl ''9'')]\<rparr>)"
  by (simp add: fetch_device_properties_def send_def catalogue_server_def get_request_def
      response_json_def py_str_def)

lemma device_b9_id: "subscript device_b9 ''id'' = Inr (PStr ''9'')"
  by (simp add: device_b9_def subscript_def dict_getitem_def)

lemma by_name_device:
  "get_device_properties catalogue_server devices0 PNone (Some ''B'') w =
     (Inr (records_of ''9''), devices0\<lparr>all_device_data := all_devices\<rparr>,
      w\<lparr>sent := sent w @ [get_request devices0 DevicesUrl,
                            get_request devices0 (DevicePropertiesByDeviceUrl ''9'')]\<rparr>)"
  by (simp add: get_device_properties_def check_device_id_and_name_def catalogue_devices
      device_b9_id catalogue_properties get_request_def)

lemma catalogue_site:
  "get_site_by_id catalogue_server sites0 (PInt 5) world0 =
     (Inr site_b, world0\<lparr>sent := [get_request sites0 (SiteUrl ''5'')]\<rparr>)"
  by (simp add: get_site_by_id_def send_def catalogue_server_def get_request_def
      response_json_def subscript_def dict_getitem_def world0_def py_str_def py_repr.simps
      str_of_int_def digits.simps digit_char_def)

lemma catalogue_sites:
  "get_site_by_name catalogue_server sites0 ''B'' w =
     (Inr site_b9, sites0\<lparr>all_site_data := all_sites\<rparr>,
      w\<lparr>sent := sent w @ [get_request sites0 SitesUrl]\<rparr>)"
  by (simp add: get_site_by_name_def get_sites_def sites0_def Sites_init_def
      core_api.defs send_def catalogue_server_def get_request_def response_json_def
      all_sites_def subscript_def dict_getitem_def py_iter_def site_b9_def site_b_def)

lemma catalogue_configurations:
  "fetch_site_configurations catalogue_server self (PStr ''9'') w =
     (Inr (records_of ''9''),
      w\<lparr>sent := sent w @ [get_request self (SiteConfigurationsUrl ''9'')]\<rparr>)"
  by (simp add: fetch_site_configurations_def send_def catalogue_server_def get_request_def
      response_json_def py_str_def)

lemma site_b9_id: "subscript site_b9 ''id'' = Inr (PStr ''9'')"
  by (simp add: site_b9_def subscript_def dict_getitem_def)

lemma by_name_site:
  "get_site_configurations catalogue_server sites0 PNone (Some ''B'') w =
     (Inr (records_of ''9''), sites0\<lparr>all_site_data := all_sites\<rparr>,
      w\<lparr>sent := sent w @ [get_request sites0 SitesUrl,
                            get_request sites0 (SiteConfigurationsUrl ''9'')]\<rparr>)"
  by (simp add: get_site_configurations_def check_site_id_and_name_def catalogue_sites
      site_b9_id catalogue_configurations get_request_def)

lemma names_of_b:
  "subscripts device_b [''attributes'', ''short_name''] = Inr (PStr ''B'')"
  "subscripts site_b [''attributes'', ''label''] = Inr (PStr ''B'')"
  by (simp_all add: device_b_def site_b_def subscript_def dict_getitem_def)

text \<open>
  C7 fails on the code. Device 2 and device 9 are both named B. Asked for the
  properties of id 2 with the name B, the toolkit fetches device 2, finds the name equal,
  then looks the name up in the snapshot and asks for the properties of device 9: the
  caller's id is silently replaced by the id found for the name. The same happens for the
  configurations of site 5.
\<close>

theorem both_given_name_overrides_id:
  "fst (get_device_by_id catalogue_server devices0 (PStr ''2'') world0) = Inr device_b
   \<and> subscripts device_b [''attributes'', ''short_name''] = Inr (PStr ''B'')
   \<and> fst (get_device_properties catalogue_server devices0 (PStr ''2'') (Some ''B'') world0)
       = Inr (records_of ''9'')
   \<and> map req_url
        (sent (snd (snd (get_device_properties catalogue_server devices0 (PStr ''2'')
                           (Some ''B'') world0))))
       = [DeviceUrl ''2'', DevicesUrl, DevicePropertiesByDeviceUrl ''9'']
   \<and> fst (get_site_by_id catalogue_server sites0 (PInt 5) world0) = Inr site_b
   \<and> subscripts site_b [''attributes'', ''label''] = Inr (PStr ''B'')
   \<and> fst (get_site_configurations catalogue_server sites0 (PInt 5) (Some ''B'') world0)
       = Inr (records_of ''9'')
   \<and> map req_url
        (sent (snd (snd (get_site_configurations catalogue_server sites0 (PInt 5)
                           (Some ''B'') world0))))
       = [SiteUrl ''5'', SitesUrl, SiteConfigurationsUrl ''9'']"
proof -
  have d: "get_device_properties catalogue_server devices0 (PStr ''2'') (Some ''B'') world0 =
      get_device_properties catalogue_server devices0 PNone (Some ''B'')
        (snd (get_device_by_id catalogue_server devices0 (PStr ''2'') world0))"
    by (rule device_names_agree [where device = device_b and v = "PStr ''B''"])
       (simp_all add: catalogue_device names_of_b del: subscripts.simps)
  have s: "get_site_configurations catalogue_server sites0 (PInt 5) (Some ''B'') world0 =
      get_site_configurations catalogue_server sites0 PNone (Some ''B'')
        (snd (get_site_by_id catalogue_server sites0 (PInt 5) world0))"
    by (rule site_names_agree [where site = site_b and v = "PStr ''B''"])
       (simp_all add: catalogue_site names_of_b del: subscripts.simps)
  show ?thesis
    unfolding d s by_name_device by_name_site
    by (simp add: catalogue_device catalogue_site names_of_b get_request_def
        del: subscripts.simps)
qed

section \<open>The groups of the user\<close>

lemma collect_user_groups_list:
  assumes "list_all has_id groups"
  shows "collect_user_groups (PList ids) groups acc =
           Inr (acc @ filter (in_membership ids) groups)"
  using assms
proof (induction groups arbitrary: acc)
  case Nil
  show ?case by simp
next
  case (Cons g gs)
  from Cons.prems obtain gid where g: "subscript g ''id'' = Inr gid"
    by (auto simp: has_id_def split: sum.splits)
  from Cons.prems have "list_all has_id gs" by simp
  from Cons.IH [OF this] g show ?case
    by (simp add: py_in_def in_membership_def)
qed

lemma get_all_groups_world:
  "snd (get_all_groups srv self w) =
     w\<lparr>sent := sent w @ [get_request self PermissionGroupsUrl]\<rparr>"
proof -
  obtain res w1 where s: "send srv (get_request self PermissionGroupsUrl) w = (res, w1)"
    by (cases "send srv (get_request self PermissionGroupsUrl) w")
  with send_world [of srv "get_request self PermissionGroupsUrl" w]
  have "w1 = w\<lparr>sent := sent w @ [get_request self PermissionGroupsUrl]\<rparr>" by simp
  with s show ?thesis
    by (simp add: get_all_groups_def split: sum.splits)
qed

lemma user_groups_of_list:
  assumes "subscripts (user_info self) [''data'', ''attributes'', ''member''] = Inr (PList ids)"
    and "fst (get_all_groups srv self w) = Inr all_groups"
    and "subscript all_groups ''data'' = Inr (PList groups)"
    and "list_all has_id groups"
  shows "user_groups_of srv self w =
           (Inr (Some (filter (in_membership ids) groups)), self,
            w\<lparr>sent := sent w @ [get_request self PermissionGroupsUrl]\<rparr>)"
proof -
  from assms(2) get_all_groups_world [of srv self w]
  have g: "get_all_groups srv self w =
       (Inr all_groups, w\<lparr>sent := sent w @ [get_request self PermissionGroupsUrl]\<rparr>)"
    by (cases "get_all_groups srv self w") simp
  show ?thesis
    unfolding user_groups_of_def g
    using assms(1,3) collect_user_groups_list [OF assms(4), of ids "[]"]
    by (simp add: py_iter_def del: subscripts.simps)
qed

lemma get_user_groups_no_key:
  assumes "api_key self = None" and "user_info self = PNone"
  shows "get_user_groups srv self w =
           (Inr None, self, w\<lparr>printed := printed w @ [warning_line]\<rparr>)"
  using assms
  by (simp add: get_user_groups_def check_user_api_key_def print_def warning_line_def)

lemma get_user_info_no_key:
  assumes "api_key self = None"
  shows "get_user_info srv self w = (Inr PNone, w\<lparr>printed := printed w @ [warning_line]\<rparr>)"
  using assms
  by (simp add: get_user_info_def check_user_api_key_def print_def warning_line_def)

lemma UserInfo_init_no_key:
  assumes "resolve_api_key given env = None"
  shows "UserInfo_init srv given env w =
     (Inr (core_api.extend (CoreApi_init given env) \<lparr>user_info = PNone, user_groups = None\<rparr>),
      w\<lparr>printed := printed w @ [warning_line, warning_line]\<rparr>)"
proof -
  define obj where
    "obj = core_api.extend (CoreApi_init given env) \<lparr>user_info = PNone, user_groups = None\<rparr>"
  have k: "api_key (CoreApi_init given env) = None"
    using assms by (simp add: CoreApi_init_def Let_def)
  have k': "api_key obj = None"
    using k by (simp add: obj_def core_api.defs)
  have u: "user_info obj = PNone"
    by (simp add: obj_def core_api.defs)
  have same: "obj\<lparr>user_groups := None\<rparr> = obj"
    by (simp add: obj_def core_api.defs)
  have "UserInfo_init srv given env w =
      (case get_user_groups srv obj (w\<lparr>printed := printed w @ [warning_line]\<rparr>) of
         (Inl e, self2, w2) \<Rightarrow> (Inl e, w2)
       | (Inr groups, self2, w2) \<Rightarrow> (Inr (self2\<lparr>user_groups := groups\<rparr>), w2))"
    by (simp add: UserInfo_init_def Let_def get_user_info_no_key [OF k] obj_def)
  also have "\<dots> = (Inr obj, w\<lparr>printed := printed w @ [warning_line, warning_line]\<rparr>)"
    by (simp add: get_user_groups_no_key [OF k' u] same)
  finally show ?thesis by (simp add: obj_def)
qed

lemma get_user_groups_lazy:
  assumes "user_info self = PNone" and "api_key self \<noteq> None"
    and "get_user_info srv self w = (Inr info, w1)"
    and "subscripts info [''data'', ''attributes'', ''member''] = Inr (PList ids)"
    and "fst (get_all_groups srv self w1) = Inr all_groups"
    and "subscript all_groups ''data'' = Inr (PList groups)"
    and "list_all has_id groups"
  shows "get_user_groups srv self w =
           (Inr (Some (filter (in_membership ids) groups)), self\<lparr>user_info := info\<rparr>,
            w1\<lparr>sent := sent w1 @ [get_request self PermissionGroupsUrl]\<rparr>)"
proof -
  let ?self = "self\<lparr>user_info := info\<rparr>"
  have r: "get_request ?self PermissionGroupsUrl = get_request self PermissionGroupsUrl"
    by (simp add: get_request_def)
  have "get_all_groups srv ?self w1 = get_all_groups srv self w1"
    by (simp add: get_all_groups_def r)
  with assms(5) have g: "fst (get_all_groups srv ?self w1) = Inr all_groups" by simp
  have i: "subscripts (user_info ?self) [''data'', ''attributes'', ''member''] = Inr (PList ids)"
    using assms(4) by (simp del: subscripts.simps)
  have "get_user_groups srv self w = user_groups_of srv ?self w1"
    using assms(1-3) by (auto simp add: get_user_groups_def check_user_api_key_def)
  with user_groups_of_list [OF i g assms(6,7)] r show ?thesis by simp
qed

text \<open>
  C9. \<open>get_user_groups\<close> returns the permission groups whose id is in the user's
  membership list, in the order of the list of all groups, whether the user information
  was already loaded or is fetched first; when no API key is configured it prints the
  warning and returns \<open>None\<close> without failing, as the object built without a key does
  twice during its construction.
\<close>

theorem get_user_groups_membership:
  "(user_info self \<noteq> PNone
      \<and> subscripts (user_info self) [''data'', ''attributes'', ''member''] = Inr (PList ids)
      \<and> fst (get_all_groups srv self w) = Inr all_groups
      \<and> subscript all_groups ''data'' = Inr (PList groups)
      \<and> list_all has_id groups \<longrightarrow>
    get_user_groups srv self w =
      (Inr (Some (filter (in_membership ids) groups)), self,
       w\<lparr>sent := sent w @ [get_request self PermissionGroupsUrl]\<rparr>))
   \<and> (user_info self = PNone \<and> api_key self \<noteq> None
      \<and> get_user_info srv self w = (Inr info, w1)
      \<and> subscripts info [''data'', ''attributes'', ''member''] = Inr (PList ids)
      \<and> fst (get_all_groups srv self w1) = Inr all_groups
      \<and> subscript all_groups ''data'' = Inr (PList groups)
      \<and> list_all has_id groups \<longrightarrow>
    get_user_groups srv self w =
      (Inr (Some (filter (in_membership ids) groups)), self\<lparr>user_info := info\<rparr>,
       w1\<lparr>sent := sent w1 @ [get_request self PermissionGroupsUrl]\<rparr>))
   \<and> (api_key self = None \<and> user_info self = PNone \<longrightarrow>
        get_user_groups srv self w =
          (Inr None, self, w\<lparr>printed := printed w @ [warning_line]\<rparr>))
   \<and> (resolve_api_key given env = None \<longrightarrow>
        UserInfo_init srv given env w =
          (Inr (core_api.extend (CoreApi_init given env)
                  \<lparr>user_info = PNone, user_groups = None\<rparr>),
           w\<lparr>printed := printed w @ [warning_line, warning_line]\<rparr>))"
proof -
  have a: "get_user_groups srv self w =
      (Inr (Some (filter (in_membership ids) groups)), self,
       w\<lparr>sent := sent w @ [get_request self PermissionGroupsUrl]\<rparr>)"
    if "user_info self \<noteq> PNone"
      "subscripts (user_info self) [''data'', ''attributes'', ''member''] = Inr (PList ids)"
      "fst (get_all_groups srv self w) = Inr all_groups"
      "subscript all_groups ''data'' = Inr (PList groups)"
      "list_all has_id groups"
  proof -
    from that(1) have "get_user_groups srv self w = user_groups_of srv self w"
      by (simp add: get_user_groups_def)
    with user_groups_of_list [OF that(2-5)] show ?thesis by simp
  qed
  from a get_user_groups_lazy [of self srv w info w1 ids all_groups groups]
    get_user_groups_no_key [of self srv w] UserInfo_init_no_key [of given env srv w]
  show ?thesis by blast
qed

lemma user_with_key_facts:
  "user_info user_with_key \<noteq> PNone"
  "subscripts (user_info user_with_key) [''data'', ''attributes'', ''member'']
     = Inr (PList [PStr ''3'', PStr ''1''])"
  "fst (get_all_groups registry_server user_with_key world0)
     = Inr (PDict [(''data'', PList [group_of ''1'', group_of ''2'', group_of ''3''])])"
  "subscript (PDict [(''data'', PList [group_of ''1'', group_of ''2'', group_of ''3''])]) ''data''
     = Inr (PList [group_of ''1'', group_of ''2'', group_of ''3''])"
  "list_all has_id [group_of ''1'', group_of ''2'', group_of ''3'']"
  "filter (in_membership [PStr ''3'', PStr ''1'']) [group_of ''1'', group_of ''2'', group_of ''3'']
     = [group_of ''1'', group_of ''3'']"
  by (simp_all add: user_with_key_def core_api.defs user_with_groups_def subscript_def
      dict_getitem_def get_all_groups_def send_def registry_server_def get_request_def
      response_json_def world0_def has_id_def group_of_def in_membership_def)

lemma user_without_key_facts:
  "api_key user_without_key = None" "user_info user_without_key = PNone"
  "resolve_api_key (Some []) None = None"
  by (simp_all add: user_without_key_def core_api.defs CoreApi_init_def resolve_api_key_def Let_def)

lemma user_fresh_facts:
  "user_info user_fresh = PNone" "api_key user_fresh \<noteq> None"
  "get_user_info registry_server user_fresh world0 = (Inr user_with_groups, world_after_user_info)"
  "subscripts user_with_groups [''data'', ''attributes'', ''member'']
     = Inr (PList [PStr ''3'', PStr ''1''])"
  "fst (get_all_groups registry_server user_fresh world_after_user_info)
     = Inr (PDict [(''data'', PList [group_of ''1'', group_of ''2'', group_of ''3''])])"
  by (simp_all add: user_fresh_def world_after_user_info_def core_api.defs CoreApi_init_def
      resolve_api_key_def Let_def get_user_info_def check_user_api_key_def send_def
      registry_server_def get_request_def response_json_def world0_def user_with_groups_def
      subscript_def dict_getitem_def get_all_groups_def)

theorem get_user_groups_membership_witness:
  "get_user_groups registry_server user_with_key world0 =
     (Inr (Some [group_of ''1'', group_of ''3'']), user_with_key,
      world0\<lparr>sent := sent world0 @ [get_request user_with_key PermissionGroupsUrl]\<rparr>)
   \<and> user_info user_fresh = PNone \<and> api_key user_fresh \<noteq> None
   \<and> get_user_groups registry_server user_fresh world0 =
     (Inr (Some [group_of ''1'', group_of ''3'']), user_fresh\<lparr>user_info := user_with_groups\<rparr>,
      world_after_user_info\<lparr>sent := sent world_after_user_info
                                 @ [get_request user_fresh PermissionGroupsUrl]\<rparr>)
   \<and> api_key user_without_key = None \<and> user_info user_without_key = PNone
   \<and> get_user_groups registry_server user_without_key world0 =
        (Inr None, user_without_key, world0\<lparr>printed := printed world0 @ [warning_line]\<rparr>)
   \<and> resolve_api_key (Some []) None = None
   \<and> UserInfo_init registry_server (Some []) None world0 =
        (Inr (core_api.extend (CoreApi_init (Some []) None)
                \<lparr>user_info = PNone, user_groups = None\<rparr>),
         world0\<lparr>printed := printed world0 @ [warning_line, warning_line]\<rparr>)"
proof -
  note t1 = get_user_groups_membership
    [where self = user_with_key and ids = "[PStr ''3'', PStr ''1'']"
       and srv = registry_server and w = world0
       and all_groups = "PDict [(''data'', PList [group_of ''1'', group_of ''2'', group_of ''3''])]"
       and groups = "[group_of ''1'', group_of ''2'', group_of ''3'']"
       and given = "Some []" and env = None and info = PNone and ?w1.0 = world0]
  note t2 = get_user_groups_membership
    [where self = user_without_key and ids = "[]" and srv = registry_server and w = world0
       and all_groups = PNone and groups = "[]" and given = "Some []" and env = None
       and info = PNone and ?w1.0 = world0]
  note t3 = get_user_groups_membership
    [where self = user_fresh and ids = "[PStr ''3'', PStr ''1'']"
       and srv = registry_server and w = world0
       and all_groups = "PDict [(''data'', PList [group_of ''1'', group_of ''2'', group_of ''3''])]"
       and groups = "[group_of ''1'', group_of ''2'', group_of ''3'']"
       and given = "Some []" and env = None and info = user_with_groups
       and ?w1.0 = world_after_user_info]
  from t1 user_with_key_facts have
    "get_user_groups registry_server user_with_key world0 =
     (Inr (Some [group_of ''1'', group_of ''3'']), user_with_key,
      world0\<lparr>sent := sent world0 @ [get_request user_with_key PermissionGroupsUrl]\<rparr>)"
    by (simp del: subscripts.simps)
  moreover from t3 user_fresh_facts user_with_key_facts(4-6) have
    "get_user_groups registry_server user_fresh world0 =
     (Inr (Some [group_of ''1'', group_of ''3'']), user_fresh\<lparr>user_info := user_with_groups\<rparr>,
      world_after_user_info\<lparr>sent := sent world_after_user_info
                                 @ [get_request user_fresh PermissionGroupsUrl]\<rparr>)"
    by (simp del: subscripts.simps)
  moreover from t2 user_without_key_facts have
    "get_user_groups registry_server user_without_key world0 =
        (Inr None, user_without_key, world0\<lparr>printed := printed world0 @ [warning_line]\<rparr>)"
    "UserInfo_init registry_server (Some []) None world0 =
        (Inr (core_api.extend (CoreApi_init (Some []) None)
                \<lparr>user_info = PNone, user_groups = None\<rparr>),
         world0\<lparr>printed := printed world0 @ [warning_line, warning_line]\<rparr>)"
    by simp_all
  ultimately show ?thesis using user_without_key_facts user_fresh_facts(1,2) by simp
qed

section \<open>Updates by name\<close>

text \<open>
  \<open>update_device_by_name\<close> and \<open>update_site_by_name\<close> resolve the name before they
  validate: the only request they may send before the validation is the GET of the
  collection that fills an empty snapshot.
\<close>

lemma get_devices_world:
  "snd (snd (get_devices srv self w)) = w\<lparr>sent := sent w @ [get_request self DevicesUrl]\<rparr>"
proof -
  obtain res w1 where s: "send srv (get_request self DevicesUrl) w = (res, w1)"
    by (cases "send srv (get_request self DevicesUrl) w")
  with send_world [of srv "get_request self DevicesUrl" w]
  have "w1 = w\<lparr>sent := sent w @ [get_request self DevicesUrl]\<rparr>" by simp
  with s show ?thesis
    by (simp add: get_devices_def split: sum.splits)
qed

lemma get_device_by_name_world:
  "snd (snd (get_device_by_name srv self name w)) =
     (if all_device_data self = PNone
      then w\<lparr>sent := sent w @ [get_request self DevicesUrl]\<rparr> else w)"
proof (cases "all_device_data self = PNone")
  case True
  obtain res self1 w1 where g: "get_devices srv self w = (res, self1, w1)"
    by (cases "get_devices srv self w")
  with get_devices_world [of srv self w]
  have "w1 = w\<lparr>sent := sent w @ [get_request self DevicesUrl]\<rparr>" by simp
  with True g show ?thesis
    by (simp add: get_device_by_name_def split: sum.splits option.splits)
next
  case False
  then show ?thesis
    by (simp add: get_device_by_name_def split: sum.splits option.splits)
qed

lemma update_device_by_name_invalid:
  assumes "offending DEVICE_ATTRIBUTES a \<noteq> []"
  shows "(\<exists>e. fst (update_device_by_name srv self name a w) = Inl e)
       \<and> snd (snd (update_device_by_name srv self name a w)) =
           (if all_device_data self = PNone
            then w\<lparr>sent := sent w @ [get_request self DevicesUrl]\<rparr> else w)"
proof -
  obtain res self1 w1 where g: "get_device_by_name srv self name w = (res, self1, w1)"
    by (cases "get_device_by_name srv self name w")
  with get_device_by_name_world [of srv self name w]
  have w1: "w1 = (if all_device_data self = PNone
            then w\<lparr>sent := sent w @ [get_request self DevicesUrl]\<rparr> else w)" by simp
  show ?thesis
    unfolding update_device_by_name_def g
    using w1 update_device_by_id_invalid [OF assms]
    by (simp split: sum.splits)
qed

lemma update_device_by_name_resolved:
  assumes "offending DEVICE_ATTRIBUTES a \<noteq> []"
    and "fst (get_device_by_name srv self name w) = Inr device"
    and "subscript device ''id'' = Inr i"
  shows "fst (update_device_by_name srv self name a w) =
           Inl (ValueError (InvalidAttributesForUpdate Device (offending DEVICE_ATTRIBUTES a)))"
proof -
  obtain self1 w1 where g: "get_device_by_name srv self name w = (Inr device, self1, w1)"
    using assms(2) by (cases "get_device_by_name srv self name w") auto
  show ?thesis
    unfolding update_device_by_name_def g
    using assms(3) update_device_by_id_invalid [OF assms(1)]
    by simp
qed

lemma get_sites_world:
  "snd (snd (get_sites srv self w)) = w\<lparr>sent := sent w @ [get_request self SitesUrl]\<rparr>"
proof -
  obtain res w1 where s: "send srv (get_request self SitesUrl) w = (res, w1)"
    by (cases "send srv (get_request self SitesUrl) w")
  with send_world [of srv "get_request self SitesUrl" w]
  have "w1 = w\<lparr>sent := sent w @ [get_request self SitesUrl]\<rparr>" by simp
  with s show ?thesis
    by (simp add: get_sites_def split: sum.splits)
qed

lemma get_site_by_name_world:
  "snd (snd (get_site_by_name srv self name w)) =
     (if all_site_data self = PNone
      then w\<lparr>sent := sent w @ [get_request self SitesUrl]\<rparr> else w)"
proof (cases "all_site_data self = PNone")
  case True
  obtain res self1 w1 where g: "get_sites srv self w = (res, self1, w1)"
    by (cases "get_sites srv self w")
  with get_sites_world [of srv self w]
  have "w1 = w\<lparr>sent := sent w @ [get_request self SitesUrl]\<rparr>" by simp
  with True g show ?thesis
    by (simp add: get_site_by_name_def split: sum.splits option.splits)
next
  case False
  then show ?thesis
    by (simp add: get_site_by_name_def split: sum.splits option.splits)
qed

lemma update_site_by_name_invalid:
  assumes "offending SITE_ATTRIBUTES a \<noteq> []"
  shows "(\<exists>e. fst (update_site_by_name srv self name a w) = Inl e)
       \<and> snd (snd (update_site_by_name srv self name a w)) =
           (if all_site_data self = PNone
            then w\<lparr>sent := sent w @ [get_request self SitesUrl]\<rparr> else w)"
proof -
  obtain res self1 w1 where g: "get_site_by_name srv self name w = (res, self1, w1)"
    by (cases "get_site_by_name srv self name w")
  with get_site_by_name_world [of srv self name w]
  have w1: "w1 = (if all_site_data self = PNone
            then w\<lparr>sent := sent w @ [get_request self SitesUrl]\<rparr> else w)" by simp
  show ?thesis
    unfolding update_site_by_name_def g
    using w1 update_site_by_id_invalid [OF assms]
    by (simp split: sum.splits)
qed

lemma update_site_by_name_resolved:
  assumes "offending SITE_ATTRIBUTES a \<noteq> []"
    and "fst (get_site_by_name srv self name w) = Inr site"
    and "subscript site ''id'' = Inr i"
  shows "fst (update_site_by_name srv self name a w) =
           Inl (ValueError (InvalidAttributesForUpdate Site (offending SITE_ATTRIBUTES a)))"
proof -
  obtain self1 w1 where g: "get_site_by_name srv self name w = (Inr site, self1, w1)"
    using assms(2) by (cases "get_site_by_name srv self name w") auto
  show ?thesis
    unfolding update_site_by_name_def g
    using assms(3) update_site_by_id_invalid [OF assms(1)]
    by simp
qed

lemma device_updates_invalid:
  assumes "k \<in> set (dict_keys a)" and "k \<notin> set DEVICE_ATTRIBUTES"
  shows "(\<exists>names. update_device_by_id srv dself device_id a w =
              (Inl (ValueError (InvalidAttributesForUpdate Device names)), w)
            \<and> k \<in> set names)
         \<and> (\<exists>e. fst (update_device_by_name srv dself name a w) = Inl e)
         \<and> snd (snd (update_device_by_name srv dself name a w)) =
             (if all_device_data dself = PNone
              then w\<lparr>sent := sent w @ [get_request dself DevicesUrl]\<rparr> else w)
         \<and> (\<forall>device i.
               fst (get_device_by_name srv dself name w) = Inr device
               \<and> subscript device ''id'' = Inr i \<longrightarrow>
               (\<exists>names. fst (update_device_by_name srv dself name a w) =
                    Inl (ValueError (InvalidAttributesForUpdate Device names))
                  \<and> k \<in> set names))"
proof -
  from assms have m: "k \<in> set (offending DEVICE_ATTRIBUTES a)"
    by (rule offending_nonempty)
  then have ne: "offending DEVICE_ATTRIBUTES a \<noteq> []" by auto
  from update_device_by_id_invalid [OF ne] m
  have 1: "\<exists>names. update_device_by_id srv dself device_id a w =
              (Inl (ValueError (InvalidAttributesForUpdate Device names)), w)
            \<and> k \<in> set names" by blast
  from update_device_by_name_resolved [OF ne] m
  have 2: "\<forall>device i.
               fst (get_device_by_name srv dself name w) = Inr device
               \<and> subscript device ''id'' = Inr i \<longrightarrow>
               (\<exists>names. fst (update_device_by_name srv dself name a w) =
                    Inl (ValueError (InvalidAttributesForUpdate Device names))
                  \<and> k \<in> set names)" by blast
  from 1 2 update_device_by_name_invalid [OF ne, of srv dself name w]
  show ?thesis by blast
qed

lemma site_updates_invalid:
  assumes "k \<in> set (dict_keys a)" and "k \<notin> set SITE_ATTRIBUTES"
  shows "(\<exists>names. update_site_by_id srv sself site_id a w =
              (Inl (ValueError (InvalidAttributesForUpdate Site names)), w)
            \<and> k \<in> set names)
         \<and> (\<exists>e. fst (update_site_by_name srv sself name a w) = Inl e)
         \<and> snd (snd (update_site_by_name srv sself name a w)) =
             (if all_site_data sself = PNone
              then w\<lparr>sent := sent w @ [get_request sself SitesUrl]\<rparr> else w)
         \<and> (\<forall>site i.
               fst (get_site_by_name srv sself name w) = Inr site
               \<and> subscript site ''id'' = Inr i \<longrightarrow>
               (\<exists>names. fst (update_site_by_name srv sself name a w) =
                    Inl (ValueError (InvalidAttributesForUpdate Site names))
                  \<and> k \<in> set names))"
proof -
  from assms have m: "k \<in> set (offending SITE_ATTRIBUTES a)"
    by (rule offending_nonempty)
  then have ne: "offending SITE_ATTRIBUTES a \<noteq> []" by auto
  from update_site_by_id_invalid [OF ne] m
  have 1: "\<exists>names. update_site_by_id srv sself site_id a w =
              (Inl (ValueError (InvalidAttributesForUpdate Site names)), w)
            \<and> k \<in> set names" by blast
  from update_site_by_name_resolved [OF ne] m
  have 2: "\<forall>site i.
               fst (get_site_by_name srv sself name w) = Inr site
               \<and> subscript site ''id'' = Inr i \<longrightarrow>
               (\<exists>names. fst (update_site_by_name srv sself name a w) =
                    Inl (ValueError (InvalidAttributesForUpdate Site names))
                  \<and> k \<in> set names)" by blast
  from 1 2 update_site_by_name_invalid [OF ne, of srv sself name w]
  show ?thesis by blast
qed


text \<open>
  C8, as the code has it. An update by id whose mapping has a key outside the allow-list
  raises the invalid-attributes error, which names that key, and leaves the world as it
  was: no request is sent. An update by name with such a mapping always fails and never
  sends a PATCH, but it resolves the name first: it sends the GET of the collection when
  the snapshot is empty, and it raises the invalid-attributes error once the name has
  resolved to an entry with an id.
\<close>

theorem update_validates_before_patch:
  assumes "k \<in> set (dict_keys a)"
  shows "(k \<notin> set DEVICE_ATTRIBUTES \<longrightarrow>
           (\<exists>names. update_device_by_id srv dself device_id a w =
                (Inl (ValueError (InvalidAttributesForUpdate Device names)), w)
              \<and> k \<in> set names)
           \<and> (\<exists>e. fst (update_device_by_name srv dself name a w) = Inl e)
           \<and> snd (snd (update_device_by_name srv dself name a w)) =
               (if all_device_data dself = PNone
                then w\<lparr>sent := sent w @ [get_request dself DevicesUrl]\<rparr> else w)
           \<and> (\<forall>device i.
                 fst (get_device_by_name srv dself name w) = Inr device
                 \<and> subscript device ''id'' = Inr i \<longrightarrow>
                 (\<exists>names. fst (update_device_by_name srv dself name a w) =
                      Inl (ValueError (InvalidAttributesForUpdate Device names))
                    \<and> k \<in> set names)))
       \<and> (k \<notin> set SITE_ATTRIBUTES \<longrightarrow>
           (\<exists>names. update_site_by_id srv sself site_id a w =
                (Inl (ValueError (InvalidAttributesForUpdate Site names)), w)
              \<and> k \<in> set names)
           \<and> (\<exists>e. fst (update_site_by_name srv sself name a w) = Inl e)
           \<and> snd (snd (update_site_by_name srv sself name a w)) =
               (if all_site_data sself = PNone
                then w\<lparr>sent := sent w @ [get_request sself SitesUrl]\<rparr> else w)
           \<and> (\<forall>site i.
                 fst (get_site_by_name srv sself name w) = Inr site
                 \<and> subscript site ''id'' = Inr i \<longrightarrow>
                 (\<exists>names. fst (update_site_by_name srv sself name a w) =
                      Inl (ValueError (InvalidAttributesForUpdate Site names))
                    \<and> k \<in> set names)))"
  using device_updates_invalid [OF assms, of srv dself device_id w name]
    site_updates_invalid [OF assms, of srv sself site_id w name]
  by blast

lemma empty_snapshots:
  "all_device_data devices0 = PNone" "all_site_data sites0 = PNone"
  by (simp_all add: devices0_def Devices_init_def sites0_def Sites_init_def core_api.defs)

lemma not_real_facts:
  "''not_a_real_attr'' \<in> set (dict_keys attrs_not_real)"
  "''not_a_real_attr'' \<notin> set DEVICE_ATTRIBUTES" "''not_a_real_attr'' \<notin> set SITE_ATTRIBUTES"
  "offending DEVICE_ATTRIBUTES attrs_not_real = [''not_a_real_attr'']"
  "offending SITE_ATTRIBUTES attrs_not_real = [''not_a_real_attr'']"
  by (simp_all add: offending_def attrs_not_real_def dict_keys_def DEVICE_ATTRIBUTES_def
      SITE_ATTRIBUTES_def)

lemma by_name_runs:
  "update_device_by_name catalogue_server devices0 ''B'' attrs_not_real world0 =
     (Inl (ValueError (InvalidAttributesForUpdate Device [''not_a_real_attr''])),
      devices0\<lparr>all_device_data := all_devices\<rparr>,
      world0\<lparr>sent := [get_request devices0 DevicesUrl]\<rparr>)"
  "update_site_by_name catalogue_server sites0 ''B'' attrs_not_real world0 =
     (Inl (ValueError (InvalidAttributesForUpdate Site [''not_a_real_attr''])),
      sites0\<lparr>all_site_data := all_sites\<rparr>,
      world0\<lparr>sent := [get_request sites0 SitesUrl]\<rparr>)"
  using update_device_by_id_invalid [of attrs_not_real] update_site_by_id_invalid [of attrs_not_real]
  by (simp_all add: update_device_by_name_def update_site_by_name_def catalogue_devices
      catalogue_sites device_b9_id site_b9_id not_real_facts world0_def)

theorem update_validates_before_patch_witness:
  "''not_a_real_attr'' \<in> set (dict_keys attrs_not_real)
   \<and> ''not_a_real_attr'' \<notin> set DEVICE_ATTRIBUTES
   \<and> ''not_a_real_attr'' \<notin> set SITE_ATTRIBUTES
   \<and> update_device_by_id answering_server devices0 (PInt 3) attrs_not_real world0 =
       (Inl (ValueError (InvalidAttributesForUpdate Device [''not_a_real_attr''])), world0)
   \<and> update_site_by_id answering_server sites0 (PInt 3) attrs_not_real world0 =
       (Inl (ValueError (InvalidAttributesForUpdate Site [''not_a_real_attr''])), world0)
   \<and> all_device_data devices0 = PNone
   \<and> snd (snd (update_device_by_name answering_server devices0 ''B'' attrs_not_real world0)) =
       world0\<lparr>sent := sent world0 @ [get_request devices0 DevicesUrl]\<rparr>
   \<and> all_site_data sites0 = PNone
   \<and> snd (snd (update_site_by_name answering_server sites0 ''B'' attrs_not_real world0)) =
       world0\<lparr>sent := sent world0 @ [get_request sites0 SitesUrl]\<rparr>
   \<and> fst (get_device_by_name catalogue_server devices0 ''B'' world0) = Inr device_b9
   \<and> subscript device_b9 ''id'' = Inr (PStr ''9'')
   \<and> (\<exists>names. fst (update_device_by_name catalogue_server devices0 ''B'' attrs_not_real world0)
                = Inl (ValueError (InvalidAttributesForUpdate Device names))
              \<and> ''not_a_real_attr'' \<in> set names)
   \<and> fst (get_site_by_name catalogue_server sites0 ''B'' world0) = Inr site_b9
   \<and> subscript site_b9 ''id'' = Inr (PStr ''9'')
   \<and> (\<exists>names. fst (update_site_by_name catalogue_server sites0 ''B'' attrs_not_real world0)
                = Inl (ValueError (InvalidAttributesForUpdate Site names))
              \<and> ''not_a_real_attr'' \<in> set names)"
proof -
  have e: "update_device_by_id answering_server devices0 (PInt 3) attrs_not_real world0 =
       (Inl (ValueError (InvalidAttributesForUpdate Device [''not_a_real_attr''])), world0)"
    "update_site_by_id answering_server sites0 (PInt 3) attrs_not_real world0 =
       (Inl (ValueError (InvalidAttributesForUpdate Site [''not_a_real_attr''])), world0)"
    using update_device_by_id_invalid [of attrs_not_real] update_site_by_id_invalid [of attrs_not_real]
      not_real_facts
    by simp_all
  have r: "fst (get_device_by_name catalogue_server devices0 ''B'' world0) = Inr device_b9"
    "fst (get_site_by_name catalogue_server sites0 ''B'' world0) = Inr site_b9"
    by (simp_all add: catalogue_devices catalogue_sites)
  note t = update_validates_before_patch
    [OF not_real_facts(1), of catalogue_server devices0 "PInt 3" world0 "''B''" sites0 "PInt 3"]
  from t not_real_facts(2) r(1) device_b9_id
  have cd: "\<exists>names. fst (update_device_by_name catalogue_server devices0 ''B'' attrs_not_real world0)
                = Inl (ValueError (InvalidAttributesForUpdate Device names))
              \<and> ''not_a_real_attr'' \<in> set names"
    by blast
  from t not_real_facts(3) r(2) site_b9_id
  have cs: "\<exists>names. fst (update_site_by_name catalogue_server sites0 ''B'' attrs_not_real world0)
                = Inl (ValueError (InvalidAttributesForUpdate Site names))
              \<and> ''not_a_real_attr'' \<in> set names"
    by blast
  from update_validates_before_patch
    [OF not_real_facts(1), of answering_server devices0 "PInt 3" world0 "''B''" sites0 "PInt 3"]
    not_real_facts e empty_snapshots
  have "snd (snd (update_device_by_name answering_server devices0 ''B'' attrs_not_real world0)) =
       world0\<lparr>sent := sent world0 @ [get_request devices0 DevicesUrl]\<rparr>"
    "snd (snd (update_site_by_name answering_server sites0 ''B'' attrs_not_real world0)) =
       world0\<lparr>sent := sent world0 @ [get_request sites0 SitesUrl]\<rparr>"
    by simp_all
  with not_real_facts e empty_snapshots r device_b9_id site_b9_id cd cs
  show ?thesis by simp
qed

text \<open>
  C8 as stated fails for the updates by name: with an empty snapshot the GET of the
  collection is sent before the unknown key is rejected, and an unknown name fails with
  the not-found error instead.
\<close>

theorem update_by_name_requests_before_validating:
  "offending DEVICE_ATTRIBUTES attrs_not_real = [''not_a_real_attr'']
   \<and> sent world0 = []
   \<and> update_device_by_name catalogue_server devices0 ''B'' attrs_not_real world0 =
       (Inl (ValueError (InvalidAttributesForUpdate Device [''not_a_real_attr''])),
        devices0\<lparr>all_device_data := all_devices\<rparr>,
        world0\<lparr>sent := [get_request devices0 DevicesUrl]\<rparr>)
   \<and> fst (update_device_by_name catalogue_server devices0 ''Z'' attrs_not_real world0) =
       Inl (ValueError (FailedToFind Device ''Z''))
   \<and> offending SITE_ATTRIBUTES attrs_not_real = [''not_a_real_attr'']
   \<and> update_site_by_name catalogue_server sites0 ''B'' attrs_not_real world0 =
       (Inl (ValueError (InvalidAttributesForUpdate Site [''not_a_real_attr''])),
        sites0\<lparr>all_site_data := all_sites\<rparr>,
        world0\<lparr>sent := [get_request sites0 SitesUrl]\<rparr>)
   \<and> fst (update_site_by_name catalogue_server sites0 ''Z'' attrs_not_real world0) =
       Inl (ValueError (FailedToFind Site ''Z''))"
proof -
  have z: "fst (update_device_by_name catalogue_server devices0 ''Z'' attrs_not_real world0) =
       Inl (ValueError (FailedToFind Device ''Z''))"
    by (simp add: update_device_by_name_def get_device_by_name_def get_devices_def devices0_def
        Devices_init_def core_api.defs send_def catalogue_server_def get_request_def
        response_json_def all_devices_def subscript_def dict_getitem_def py_iter_def
        device_b9_def device_b_def)
  have zs: "fst (update_site_by_name catalogue_server sites0 ''Z'' attrs_not_real world0) =
       Inl (ValueError (FailedToFind Site ''Z''))"
    by (simp add: update_site_by_name_def get_site_by_name_def get_sites_def sites0_def
        Sites_init_def core_api.defs send_def catalogue_server_def get_request_def
        response_json_def all_sites_def subscript_def dict_getitem_def py_iter_def
        site_b9_def site_b_def)
  from z zs by_name_runs not_real_facts show ?thesis
    by (simp add: world0_def)
qed

end
